theory Spec2Isabelle
  imports Complex_Main
begin

section \<open>JavaScript values\<close>

text \<open>
  The request bodies of \<^verbatim>\<open>server.js\<close> are produced by the JSON and urlencoded
  body parsers, so every field of a body is a value that \<^verbatim>\<open>JSON.parse\<close> can return.
  A number is a finite double, minus zero or one of the two infinities
  (\<^verbatim>\<open>JSON.parse\<close> returns \<^verbatim>\<open>Infinity\<close> for a number too large for a double, and never
  \<^verbatim>\<open>NaN\<close>); a finite double is given by its value, a rational. A string is a list of
  8-bit code units: text outside Latin-1 is not covered. An object is the list of its
  own properties in property order; none of them is callable. A property that is
  absent reads as \<^verbatim>\<open>undefined\<close>, which is \<open>None\<close> here: a JavaScript value is a
  \<open>json option\<close>.
\<close>

datatype number = Finite rat | NegZero | PosInfinity | NegInfinity

datatype json =
    JNull
  | JBool bool
  | JNum number
  | JStr string
  | JArr "json list"
  | JObj "(string \<times> json) list"

type_synonym jsval = "json option"

type_synonym instant = nat

text \<open>JavaScript's ToBoolean, used by \<^verbatim>\<open>!x\<close>, \<^verbatim>\<open>x && y\<close> and \<^verbatim>\<open>x || y\<close>.\<close>

fun truthy :: "jsval \<Rightarrow> bool" where
  "truthy None = False"
| "truthy (Some JNull) = False"
| "truthy (Some (JBool b)) = b"
| "truthy (Some (JNum x)) = (x \<noteq> Finite 0 \<and> x \<noteq> NegZero)"
| "truthy (Some (JStr s)) = (s \<noteq> [])"
| "truthy (Some (JArr xs)) = True"
| "truthy (Some (JObj kvs)) = True"

text \<open>\<^verbatim>\<open>a || b\<close> on values.\<close>

definition or_else :: "jsval \<Rightarrow> jsval \<Rightarrow> jsval" where
  "or_else a b = (if truthy a then a else b)"

text \<open>\<^verbatim>\<open>const { k } = req.body\<close>: the property, or \<^verbatim>\<open>undefined\<close>.\<close>

type_synonym body = "(string \<times> json) list"

definition field :: "body \<Rightarrow> string \<Rightarrow> jsval" where
  "field b k = map_of b k"

text \<open>\<^verbatim>\<open>const { k = d } = req.body\<close>: the default applies to \<^verbatim>\<open>undefined\<close> only.\<close>

definition field_default :: "body \<Rightarrow> string \<Rightarrow> json \<Rightarrow> jsval" where
  "field_default b k d = (case map_of b k of None \<Rightarrow> Some d | Some v \<Rightarrow> Some v)"

section \<open>The JavaScript runtime and string conversion\<close>

text \<open>
  What the handlers take from the runtime without the repository fixing it is a
  parameter of the model: the string conversion of a number (Number's toString),
  \<^verbatim>\<open>JSON.stringify\<close> of a value, and the two renderings of a Date.
\<close>

record runtime =
  numberToString :: "number \<Rightarrow> string"
  jsonStringify :: "json \<Rightarrow> string"
  dateToString :: "instant \<Rightarrow> string"
  toISOString :: "instant \<Rightarrow> string"

datatype error = Error string

text \<open>The TypeError that a failed conversion of an object to a primitive throws.\<close>

definition type_error :: error where
  "type_error = Error ''Cannot convert object to primitive value''"

fun join :: "string \<Rightarrow> string list \<Rightarrow> string" where
  "join sep [] = []"
| "join sep [x] = x"
| "join sep (x # y # ys) = x @ sep @ join sep (y # ys)"

text \<open>
  JavaScript's ToString, which a template literal \<^verbatim>\<open>${x}\<close> applies to \<^verbatim>\<open>x\<close>.
  An array joins the conversions of its elements with commas, a \<^verbatim>\<open>null\<close> element
  giving the empty string. An object without an own \<^verbatim>\<open>toString\<close> property renders
  as \<^verbatim>\<open>[object Object]\<close> through \<^verbatim>\<open>Object.prototype.toString\<close>. An object with an
  own \<^verbatim>\<open>toString\<close> property has no callable \<^verbatim>\<open>toString\<close> (values of a parsed body
  are not callable), and its \<^verbatim>\<open>valueOf\<close>, own or inherited, gives no primitive: the
  conversion throws a TypeError.
\<close>

fun json_to_string :: "runtime \<Rightarrow> json \<Rightarrow> error + string"
  and elems_to_strings :: "runtime \<Rightarrow> json list \<Rightarrow> error + string list" where
  "json_to_string rt JNull = Inr ''null''"
| "json_to_string rt (JBool b) = Inr (if b then ''true'' else ''false'')"
| "json_to_string rt (JNum x) = Inr (numberToString rt x)"
| "json_to_string rt (JStr s) = Inr s"
| "json_to_string rt (JArr xs) =
     (case elems_to_strings rt xs of
        Inl err \<Rightarrow> Inl err
      | Inr ss \<Rightarrow> Inr (join '','' ss))"
| "json_to_string rt (JObj kvs) =
     (case map_of kvs ''toString'' of
        None \<Rightarrow> Inr ''[object Object]''
      | Some f \<Rightarrow> Inl type_error)"
| "elems_to_strings rt [] = Inr []"
| "elems_to_strings rt (x # xs) =
     (case (if x = JNull then Inr [] else json_to_string rt x) of
        Inl err \<Rightarrow> Inl err
      | Inr s \<Rightarrow>
          (case elems_to_strings rt xs of
             Inl err \<Rightarrow> Inl err
           | Inr ss \<Rightarrow> Inr (s # ss)))"

definition to_string :: "runtime \<Rightarrow> jsval \<Rightarrow> error + string" where
  "to_string rt v = (case v of None \<Rightarrow> Inr ''undefined'' | Some j \<Rightarrow> json_to_string rt j)"

text \<open>Sequencing of steps that may throw.\<close>

definition and_then :: "error + 'a \<Rightarrow> ('a \<Rightarrow> error + 'b) \<Rightarrow> error + 'b" where
  "and_then x f = (case x of Inl err \<Rightarrow> Inl err | Inr a \<Rightarrow> f a)"

text \<open>
  \<^verbatim>\<open>JSON.stringify(x)\<close> as the survey handler calls it: \<^verbatim>\<open>undefined\<close> for
  \<^verbatim>\<open>undefined\<close>, and the runtime's text for a value.
\<close>

definition json_stringify :: "runtime \<Rightarrow> jsval \<Rightarrow> jsval" where
  "json_stringify rt v = map_option (\<lambda>j. JStr (jsonStringify rt j)) v"

section \<open>Environment, store and mail transport\<close>

text \<open>\<^verbatim>\<open>process.env\<close>: each variable is a string or absent.\<close>

record env =
  EMAIL_USER :: "string option"
  EMAIL_PASSWORD :: "string option"
  EMAIL_FROM :: "string option"
  CALENDLY_URL :: "string option"
  MEDICARE_SURVEY_URL :: "string option"
  HEALTHSHERPA_AGENT_ID :: "string option"
  AMERITAS_LINK :: "string option"
  GEOBLUE_LINK :: "string option"
  NODE_ENV :: "string option"

definition env_val :: "string option \<Rightarrow> jsval" where
  "env_val x = map_option JStr x"

record mail =
  mail_from :: jsval
  mail_to :: jsval
  subject :: string
  html :: string

text \<open>
  Modelled from the spec: the table definitions are not in the repository. The spec
  gives five independently keyed tables, each auto-incrementing its identifier and
  defaulting its creation timestamp to insertion time; the statements of
  \<^verbatim>\<open>server.js\<close> name the columns and the uniqueness of a newsletter email.
  A row holds the parameters as the statement binds them.
\<close>

record contact_row =
  c_id :: nat
  c_name :: jsval
  c_email :: jsval
  c_phone :: jsval
  c_message :: jsval
  c_submission_type :: jsval
  c_created_at :: instant

record appointment_row =
  a_id :: nat
  a_name :: jsval
  a_email :: jsval
  a_phone :: jsval
  a_preferred_date :: jsval
  a_preferred_time :: jsval
  a_message :: jsval
  a_created_at :: instant

record quote_row =
  q_id :: nat
  q_company_name :: jsval
  q_contact_name :: jsval
  q_email :: jsval
  q_phone :: jsval
  q_num_employees :: jsval
  q_current_provider :: jsval
  q_interested_in :: jsval
  q_created_at :: instant

record survey_row =
  s_id :: nat
  s_survey_type :: jsval
  s_survey_data :: jsval
  s_email :: jsval
  s_created_at :: instant

record newsletter_row =
  n_id :: nat
  n_email :: jsval
  n_name :: jsval
  n_created_at :: instant

text \<open>
  The state that the handlers act on: the five tables, each with the last value of
  its id sequence, and what stands for the two services outside. \<open>store_fault\<close> is
  the error with which \<^verbatim>\<open>pool.query\<close> rejects (store unreachable, constraint
  violated), \<open>mail_fault\<close> the one with which \<^verbatim>\<open>transporter.sendMail\<close> rejects;
  \<open>sendMail_calls\<close> logs every call of \<^verbatim>\<open>sendMail\<close> and \<open>console\<close> every
  \<^verbatim>\<open>console.error\<close>.
\<close>

record world =
  contact_submissions :: "contact_row list"
  contact_seq :: nat
  appointment_requests :: "appointment_row list"
  appointment_seq :: nat
  quote_requests :: "quote_row list"
  quote_seq :: nat
  survey_submissions :: "survey_row list"
  survey_seq :: nat
  newsletter_subscriptions :: "newsletter_row list"
  newsletter_seq :: nat
  store_fault :: "string option"
  mail_fault :: "string option"
  sendMail_calls :: "mail list"
  console :: "(string \<times> error) list"

record response =
  status :: nat
  json :: "(string \<times> jsval) list"

type_synonym query_result = "nat \<times> instant"

definition insert_contact_submission ::
  "jsval \<Rightarrow> jsval \<Rightarrow> jsval \<Rightarrow> jsval \<Rightarrow> jsval \<Rightarrow> instant \<Rightarrow> world
    \<Rightarrow> (error + query_result) \<times> world" where
  "insert_contact_submission name email phone message submissionType now w =
     (case store_fault w of
        Some d \<Rightarrow> (Inl (Error d), w)
      | None \<Rightarrow>
          (Inr (Suc (contact_seq w), now),
           w\<lparr>contact_seq := Suc (contact_seq w),
             contact_submissions := contact_submissions w @
               [\<lparr>c_id = Suc (contact_seq w), c_name = name, c_email = email,
                 c_phone = phone, c_message = message,
                 c_submission_type = submissionType, c_created_at = now\<rparr>]\<rparr>))"

definition insert_appointment_request ::
  "jsval \<Rightarrow> jsval \<Rightarrow> jsval \<Rightarrow> jsval \<Rightarrow> jsval \<Rightarrow> jsval \<Rightarrow> instant \<Rightarrow> world
    \<Rightarrow> (error + query_result) \<times> world" where
  "insert_appointment_request name email phone preferredDate preferredTime message now w =
     (case store_fault w of
        Some d \<Rightarrow> (Inl (Error d), w)
      | None \<Rightarrow>
          (Inr (Suc (appointment_seq w), now),
           w\<lparr>appointment_seq := Suc (appointment_seq w),
             appointment_requests := appointment_requests w @
               [\<lparr>a_id = Suc (appointment_seq w), a_name = name, a_email = email,
                 a_phone = phone, a_preferred_date = preferredDate,
                 a_preferred_time = preferredTime, a_message = message,
                 a_created_at = now\<rparr>]\<rparr>))"

definition insert_quote_request ::
  "jsval \<Rightarrow> jsval \<Rightarrow> jsval \<Rightarrow> jsval \<Rightarrow> jsval \<Rightarrow> jsval \<Rightarrow> jsval \<Rightarrow> instant \<Rightarrow> world
    \<Rightarrow> (error + query_result) \<times> world" where
  "insert_quote_request companyName contactName email phone numEmployees currentProvider
       interestedIn now w =
     (case store_fault w of
        Some d \<Rightarrow> (Inl (Error d), w)
      | None \<Rightarrow>
          (Inr (Suc (quote_seq w), now),
           w\<lparr>quote_seq := Suc (quote_seq w),
             quote_requests := quote_requests w @
               [\<lparr>q_id = Suc (quote_seq w), q_company_name = companyName,
                 q_contact_name = contactName, q_email = email, q_phone = phone,
                 q_num_employees = numEmployees, q_current_provider = currentProvider,
                 q_interested_in = interestedIn, q_created_at = now\<rparr>]\<rparr>))"

definition insert_survey_submission ::
  "jsval \<Rightarrow> jsval \<Rightarrow> jsval \<Rightarrow> instant \<Rightarrow> world \<Rightarrow> (error + query_result) \<times> world" where
  "insert_survey_submission surveyType surveyData email now w =
     (case store_fault w of
        Some d \<Rightarrow> (Inl (Error d), w)
      | None \<Rightarrow>
          (Inr (Suc (survey_seq w), now),
           w\<lparr>survey_seq := Suc (survey_seq w),
             survey_submissions := survey_submissions w @
               [\<lparr>s_id = Suc (survey_seq w), s_survey_type = surveyType,
                 s_survey_data = surveyData, s_email = email, s_created_at = now\<rparr>]\<rparr>))"

text \<open>
  \<^verbatim>\<open>INSERT ... ON CONFLICT (email) DO UPDATE SET name = EXCLUDED.name,
  created_at = CURRENT_TIMESTAMP RETURNING id, created_at\<close>: a row with this email is
  updated in place and keeps its id; otherwise a new row is appended. The sequence
  advances in both cases: the default of the id column is evaluated before the
  conflict is found.
\<close>

definition upsert_row :: "jsval \<Rightarrow> jsval \<Rightarrow> instant \<Rightarrow> newsletter_row \<Rightarrow> newsletter_row" where
  "upsert_row email name now r =
     (if n_email r = email then r\<lparr>n_name := name, n_created_at := now\<rparr> else r)"

definition upsert_newsletter_subscription ::
  "jsval \<Rightarrow> jsval \<Rightarrow> instant \<Rightarrow> world \<Rightarrow> (error + query_result) \<times> world" where
  "upsert_newsletter_subscription email name now w =
     (case store_fault w of
        Some d \<Rightarrow> (Inl (Error d), w)
      | None \<Rightarrow>
          (case find (\<lambda>r. n_email r = email) (newsletter_subscriptions w) of
             Some r \<Rightarrow>
               (Inr (n_id r, now),
                w\<lparr>newsletter_seq := Suc (newsletter_seq w),
                  newsletter_subscriptions :=
                    map (upsert_row email name now) (newsletter_subscriptions w)\<rparr>)
           | None \<Rightarrow>
               (Inr (Suc (newsletter_seq w), now),
                w\<lparr>newsletter_seq := Suc (newsletter_seq w),
                  newsletter_subscriptions := newsletter_subscriptions w @
                    [\<lparr>n_id = Suc (newsletter_seq w), n_email = email, n_name = name,
                      n_created_at = now\<rparr>]\<rparr>)))"

text \<open>\<^verbatim>\<open>await transporter.sendMail(mailOptions)\<close>: the call is logged, then it rejects or resolves.\<close>

definition sendMail :: "mail \<Rightarrow> world \<Rightarrow> (error + unit) \<times> world" where
  "sendMail m w =
     (case mail_fault w of
        Some d \<Rightarrow> (Inl (Error d), w\<lparr>sendMail_calls := sendMail_calls w @ [m]\<rparr>)
      | None \<Rightarrow> (Inr (), w\<lparr>sendMail_calls := sendMail_calls w @ [m]\<rparr>))"

section \<open>The handlers of server.js\<close>

definition nl :: string where
  "nl = [CHR 0x0A]"

definition configured :: "env \<Rightarrow> bool" where
  "configured e = (truthy (env_val (EMAIL_USER e)) \<and> truthy (env_val (EMAIL_PASSWORD e)))"

definition bad_request :: "string \<Rightarrow> response" where
  "bad_request msg = \<lparr>status = 400, json = [(''error'', Some (JStr msg))]\<rparr>"

definition server_error :: "string \<Rightarrow> response" where
  "server_error msg = \<lparr>status = 500, json = [(''error'', Some (JStr msg))]\<rparr>"

text \<open>\<^verbatim>\<open>GET /api/health\<close>.\<close>

definition get_health :: "runtime \<Rightarrow> env \<Rightarrow> instant \<Rightarrow> world \<Rightarrow> response \<times> world" where
  "get_health rt e now w =
     (\<lparr>status = 200,
       json = [(''status'', Some (JStr ''healthy'')),
               (''message'', Some (JStr ''LifeLine Health Plans API is running'')),
               (''timestamp'', Some (JStr (toISOString rt now)))]\<rparr>, w)"

text \<open>\<^verbatim>\<open>POST /api/contact\<close>: the mail, the body of the \<^verbatim>\<open>try\<close> block, and the handler.\<close>

definition contact_html ::
  "string \<Rightarrow> string \<Rightarrow> string \<Rightarrow> string \<Rightarrow> string \<Rightarrow> string \<Rightarrow> string" where
  "contact_html name email phone message submissionType created_at =
     concat
       [nl,
        ''          <h2>New Contact Form Submission</h2>'', nl,
        ''          <p><strong>Name:</strong> '', name, ''</p>'', nl,
        ''          <p><strong>Email:</strong> '', email, ''</p>'', nl,
        ''          <p><strong>Phone:</strong> '', phone, ''</p>'', nl,
        ''          <p><strong>Message:</strong> '', message, ''</p>'', nl,
        ''          <p><strong>Type:</strong> '', submissionType, ''</p>'', nl,
        ''          <p><strong>Submitted at:</strong> '', created_at, ''</p>'', nl,
        ''        '']"

text \<open>
  \<^verbatim>\<open>mailOptions\<close>: the subject is evaluated before the body, and each \<^verbatim>\<open>${...}\<close>
  converts its value in turn; the first conversion that throws ends the evaluation.
\<close>

definition contact_mail ::
  "runtime \<Rightarrow> env \<Rightarrow> jsval \<Rightarrow> jsval \<Rightarrow> jsval \<Rightarrow> jsval \<Rightarrow> jsval \<Rightarrow> instant
    \<Rightarrow> error + mail" where
  "contact_mail rt e name email phone message submissionType created_at =
     and_then (to_string rt submissionType) (\<lambda>subject_type.
     and_then (to_string rt name) (\<lambda>name'.
     and_then (to_string rt (or_else email (Some (JStr ''Not provided'')))) (\<lambda>email'.
     and_then (to_string rt (or_else phone (Some (JStr ''Not provided'')))) (\<lambda>phone'.
     and_then (to_string rt message) (\<lambda>message'.
     and_then (to_string rt submissionType) (\<lambda>type'.
       Inr \<lparr>mail_from = env_val (EMAIL_FROM e),
            mail_to = env_val (EMAIL_USER e),
            subject = ''New Contact Form Submission - '' @ subject_type,
            html = contact_html name' email' phone' message' type'
              (dateToString rt created_at)\<rparr>))))))"

definition post_contact_try ::
  "runtime \<Rightarrow> env \<Rightarrow> instant \<Rightarrow> body \<Rightarrow> world \<Rightarrow> (error + response) \<times> world" where
  "post_contact_try rt e now b w =
     (let name = field b ''name''; email = field b ''email''; phone = field b ''phone'';
          message = field b ''message'';
          submissionType = field_default b ''submissionType'' (JStr ''general'')
      in if \<not> truthy name \<or> (\<not> truthy email \<and> \<not> truthy phone)
         then (Inr (bad_request ''Name and either email or phone number are required''), w)
         else
           (case insert_contact_submission name email phone message submissionType now w of
              (Inl err, w1) \<Rightarrow> (Inl err, w1)
            | (Inr result, w1) \<Rightarrow>
                (case (if truthy (env_val (EMAIL_USER e)) \<and> truthy (env_val (EMAIL_PASSWORD e))
                       then (case contact_mail rt e name email phone message
                                    submissionType (snd result) of
                               Inl err \<Rightarrow> (Inl err, w1)
                             | Inr mailOptions \<Rightarrow> sendMail mailOptions w1)
                       else (Inr (), w1)) of
                   (Inl err, w2) \<Rightarrow> (Inl err, w2)
                 | (Inr u, w2) \<Rightarrow>
                     (Inr \<lparr>status = 200,
                           json = [(''success'', Some (JBool True)),
                                   (''message'', Some (JStr
                                      ''Thank you for contacting us. We will reach out to you soon!'')),
                                   (''submissionId'', Some (JNum (Finite (of_nat (fst result)))))]\<rparr>,
                      w2))))"

definition post_contact :: "runtime \<Rightarrow> env \<Rightarrow> instant \<Rightarrow> body \<Rightarrow> world \<Rightarrow> response \<times> world" where
  "post_contact rt e now b w =
     (case post_contact_try rt e now b w of
        (Inr r, w') \<Rightarrow> (r, w')
      | (Inl err, w') \<Rightarrow>
          (server_error ''Failed to submit contact form'',
           w'\<lparr>console := console w' @ [(''Contact form error:'', err)]\<rparr>))"

text \<open>\<^verbatim>\<open>POST /api/appointment\<close>.\<close>

definition post_appointment_try ::
  "env \<Rightarrow> instant \<Rightarrow> body \<Rightarrow> world \<Rightarrow> (error + response) \<times> world" where
  "post_appointment_try e now b w =
     (let name = field b ''name''; email = field b ''email''; phone = field b ''phone'';
          preferredDate = field b ''preferredDate''; preferredTime = field b ''preferredTime'';
          message = field b ''message''
      in if \<not> truthy name \<or> \<not> truthy email
         then (Inr (bad_request ''Name and email are required for appointment requests''), w)
         else
           (case insert_appointment_request name email phone preferredDate preferredTime
                   message now w of
              (Inl err, w1) \<Rightarrow> (Inl err, w1)
            | (Inr result, w1) \<Rightarrow>
                (Inr \<lparr>status = 200,
                      json = [(''success'', Some (JBool True)),
                              (''message'', Some (JStr
                                 ''Appointment request received. We will contact you to confirm.'')),
                              (''appointmentId'', Some (JNum (Finite (of_nat (fst result))))),
                              (''calendlyUrl'', env_val (CALENDLY_URL e))]\<rparr>,
                 w1)))"

definition post_appointment :: "env \<Rightarrow> instant \<Rightarrow> body \<Rightarrow> world \<Rightarrow> response \<times> world" where
  "post_appointment e now b w =
     (case post_appointment_try e now b w of
        (Inr r, w') \<Rightarrow> (r, w')
      | (Inl err, w') \<Rightarrow>
          (server_error ''Failed to submit appointment request'',
           w'\<lparr>console := console w' @ [(''Appointment request error:'', err)]\<rparr>))"

text \<open>\<^verbatim>\<open>POST /api/quote\<close>.\<close>

definition quote_html ::
  "string \<Rightarrow> string \<Rightarrow> string \<Rightarrow> string \<Rightarrow> string \<Rightarrow> string \<Rightarrow> string \<Rightarrow> string
    \<Rightarrow> string" where
  "quote_html companyName contactName email phone numEmployees currentProvider interestedIn
       created_at =
     concat
       [nl,
        ''          <h2>New Quote Request</h2>'', nl,
        ''          <p><strong>Company:</strong> '', companyName, ''</p>'', nl,
        ''          <p><strong>Contact Name:</strong> '', contactName, ''</p>'', nl,
        ''          <p><strong>Email:</strong> '', email, ''</p>'', nl,
        ''          <p><strong>Phone:</strong> '', phone, ''</p>'', nl,
        ''          <p><strong>Number of Employees:</strong> '', numEmployees, ''</p>'', nl,
        ''          <p><strong>Current Provider:</strong> '', currentProvider, ''</p>'', nl,
        ''          <p><strong>Interested In:</strong> '', interestedIn, ''</p>'', nl,
        ''          <p><strong>Submitted at:</strong> '', created_at, ''</p>'', nl,
        ''        '']"

definition quote_mail ::
  "runtime \<Rightarrow> env \<Rightarrow> jsval \<Rightarrow> jsval \<Rightarrow> jsval \<Rightarrow> jsval \<Rightarrow> jsval \<Rightarrow> jsval \<Rightarrow> jsval
    \<Rightarrow> instant \<Rightarrow> error + mail" where
  "quote_mail rt e companyName contactName email phone numEmployees currentProvider
       interestedIn created_at =
     and_then (to_string rt (or_else companyName (Some (JStr ''Individual'')))) (\<lambda>subject_company.
     and_then (to_string rt (or_else companyName (Some (JStr ''N/A'')))) (\<lambda>company'.
     and_then (to_string rt contactName) (\<lambda>contact'.
     and_then (to_string rt email) (\<lambda>email'.
     and_then (to_string rt (or_else phone (Some (JStr ''Not provided'')))) (\<lambda>phone'.
     and_then (to_string rt (or_else numEmployees (Some (JStr ''Not specified'')))) (\<lambda>employees'.
     and_then (to_string rt (or_else currentProvider (Some (JStr ''None'')))) (\<lambda>provider'.
     and_then (to_string rt (or_else interestedIn (Some (JStr ''General Information''))))
       (\<lambda>interested'.
       Inr \<lparr>mail_from = env_val (EMAIL_FROM e),
            mail_to = env_val (EMAIL_USER e),
            subject = ''New Group Insurance Quote Request - '' @ subject_company,
            html = quote_html company' contact' email' phone' employees' provider'
              interested' (dateToString rt created_at)\<rparr>))))))))"

definition post_quote_try ::
  "runtime \<Rightarrow> env \<Rightarrow> instant \<Rightarrow> body \<Rightarrow> world \<Rightarrow> (error + response) \<times> world" where
  "post_quote_try rt e now b w =
     (let companyName = field b ''companyName''; contactName = field b ''contactName'';
          email = field b ''email''; phone = field b ''phone'';
          numEmployees = field b ''numEmployees'';
          currentProvider = field b ''currentProvider'';
          interestedIn = field b ''interestedIn''
      in if \<not> truthy contactName \<or> \<not> truthy email
         then (Inr (bad_request ''Contact name and email are required for quote requests''), w)
         else
           (case insert_quote_request companyName contactName email phone numEmployees
                   currentProvider interestedIn now w of
              (Inl err, w1) \<Rightarrow> (Inl err, w1)
            | (Inr result, w1) \<Rightarrow>
                (case (if truthy (env_val (EMAIL_USER e)) \<and> truthy (env_val (EMAIL_PASSWORD e))
                       then (case quote_mail rt e companyName contactName email phone
                                    numEmployees currentProvider interestedIn (snd result) of
                               Inl err \<Rightarrow> (Inl err, w1)
                             | Inr mailOptions \<Rightarrow> sendMail mailOptions w1)
                       else (Inr (), w1)) of
                   (Inl err, w2) \<Rightarrow> (Inl err, w2)
                 | (Inr u, w2) \<Rightarrow>
                     (Inr \<lparr>status = 200,
                           json = [(''success'', Some (JBool True)),
                                   (''message'', Some (JStr
                                      ''Quote request received. We will prepare your personalized quote and contact you soon.'')),
                                   (''quoteId'', Some (JNum (Finite (of_nat (fst result)))))]\<rparr>,
                      w2))))"

definition post_quote :: "runtime \<Rightarrow> env \<Rightarrow> instant \<Rightarrow> body \<Rightarrow> world \<Rightarrow> response \<times> world" where
  "post_quote rt e now b w =
     (case post_quote_try rt e now b w of
        (Inr r, w') \<Rightarrow> (r, w')
      | (Inl err, w') \<Rightarrow>
          (server_error ''Failed to submit quote request'',
           w'\<lparr>console := console w' @ [(''Quote request error:'', err)]\<rparr>))"

text \<open>\<^verbatim>\<open>POST /api/survey\<close>.\<close>

definition post_survey_try ::
  "runtime \<Rightarrow> instant \<Rightarrow> body \<Rightarrow> world \<Rightarrow> (error + response) \<times> world" where
  "post_survey_try rt now b w =
     (let surveyType = field b ''surveyType''; surveyData = field b ''surveyData'';
          email = field b ''email''
      in case insert_survey_submission surveyType (json_stringify rt surveyData) email now w of
           (Inl err, w1) \<Rightarrow> (Inl err, w1)
         | (Inr result, w1) \<Rightarrow>
             (Inr \<lparr>status = 200,
                   json = [(''success'', Some (JBool True)),
                           (''message'', Some (JStr
                              ''Survey submitted successfully. We will review and reach out to guide your journey!'')),
                           (''surveyId'', Some (JNum (Finite (of_nat (fst result)))))]\<rparr>,
              w1))"

definition post_survey :: "runtime \<Rightarrow> instant \<Rightarrow> body \<Rightarrow> world \<Rightarrow> response \<times> world" where
  "post_survey rt now b w =
     (case post_survey_try rt now b w of
        (Inr r, w') \<Rightarrow> (r, w')
      | (Inl err, w') \<Rightarrow>
          (server_error ''Failed to submit survey'',
           w'\<lparr>console := console w' @ [(''Survey submission error:'', err)]\<rparr>))"

text \<open>\<^verbatim>\<open>POST /api/newsletter\<close>.\<close>

definition post_newsletter_try ::
  "instant \<Rightarrow> body \<Rightarrow> world \<Rightarrow> (error + response) \<times> world" where
  "post_newsletter_try now b w =
     (let email = field b ''email''; name = field b ''name''
      in if \<not> truthy email
         then (Inr (bad_request ''Email is required for newsletter subscription''), w)
         else
           (case upsert_newsletter_subscription email name now w of
              (Inl err, w1) \<Rightarrow> (Inl err, w1)
            | (Inr result, w1) \<Rightarrow>
                (Inr \<lparr>status = 200,
                      json = [(''success'', Some (JBool True)),
                              (''message'', Some (JStr
                                 ''Successfully subscribed to our newsletter!''))]\<rparr>,
                 w1)))"

definition post_newsletter :: "instant \<Rightarrow> body \<Rightarrow> world \<Rightarrow> response \<times> world" where
  "post_newsletter now b w =
     (case post_newsletter_try now b w of
        (Inr r, w') \<Rightarrow> (r, w')
      | (Inl err, w') \<Rightarrow>
          (server_error ''Failed to subscribe to newsletter'',
           w'\<lparr>console := console w' @ [(''Newsletter subscription error:'', err)]\<rparr>))"

text \<open>
  The error handling middleware: \<^verbatim>\<open>console.error(err.stack)\<close> is logged without a
  label, and the error's message is in the body in development mode only.
\<close>

definition error_message :: "error \<Rightarrow> string" where
  "error_message err = (case err of Error d \<Rightarrow> d)"

definition error_middleware :: "env \<Rightarrow> error \<Rightarrow> world \<Rightarrow> response \<times> world" where
  "error_middleware e err w =
     (\<lparr>status = 500,
       json = [(''error'', Some (JStr ''Something went wrong!'')),
               (''message'', if NODE_ENV e = Some ''development''
                             then Some (JStr (error_message err)) else None)]\<rparr>,
      w\<lparr>console := console w @ [([], err)]\<rparr>)"

section \<open>Notions used by the properties\<close>

text \<open>
  The required fields of each submission type. A field is present when it is truthy:
  for a string that is being non-empty, and an absent field is not present.
\<close>

definition contact_required :: "body \<Rightarrow> bool" where
  "contact_required b =
     (truthy (field b ''name'') \<and> (truthy (field b ''email'') \<or> truthy (field b ''phone'')))"

definition appointment_required :: "body \<Rightarrow> bool" where
  "appointment_required b = (truthy (field b ''name'') \<and> truthy (field b ''email''))"

definition quote_required :: "body \<Rightarrow> bool" where
  "quote_required b = (truthy (field b ''contactName'') \<and> truthy (field b ''email''))"

text \<open>A success response: status 200 with \<^verbatim>\<open>success: true\<close> in the body.\<close>

definition is_success :: "response \<Rightarrow> bool" where
  "is_success r = (status r = 200 \<and> map_of (json r) ''success'' = Some (Some (JBool True)))"

text \<open>The row that a request binds, with the id and the timestamp the store assigns.\<close>

definition contact_row_of :: "body \<Rightarrow> nat \<Rightarrow> instant \<Rightarrow> contact_row" where
  "contact_row_of b i now =
     \<lparr>c_id = i, c_name = field b ''name'', c_email = field b ''email'',
      c_phone = field b ''phone'', c_message = field b ''message'',
      c_submission_type = field_default b ''submissionType'' (JStr ''general''),
      c_created_at = now\<rparr>"

definition appointment_row_of :: "body \<Rightarrow> nat \<Rightarrow> instant \<Rightarrow> appointment_row" where
  "appointment_row_of b i now =
     \<lparr>a_id = i, a_name = field b ''name'', a_email = field b ''email'',
      a_phone = field b ''phone'', a_preferred_date = field b ''preferredDate'',
      a_preferred_time = field b ''preferredTime'', a_message = field b ''message'',
      a_created_at = now\<rparr>"

definition quote_row_of :: "body \<Rightarrow> nat \<Rightarrow> instant \<Rightarrow> quote_row" where
  "quote_row_of b i now =
     \<lparr>q_id = i, q_company_name = field b ''companyName'',
      q_contact_name = field b ''contactName'', q_email = field b ''email'',
      q_phone = field b ''phone'', q_num_employees = field b ''numEmployees'',
      q_current_provider = field b ''currentProvider'',
      q_interested_in = field b ''interestedIn'', q_created_at = now\<rparr>"

definition survey_row_of :: "runtime \<Rightarrow> body \<Rightarrow> nat \<Rightarrow> instant \<Rightarrow> survey_row" where
  "survey_row_of rt b i now =
     \<lparr>s_id = i, s_survey_type = field b ''surveyType'',
      s_survey_data = json_stringify rt (field b ''surveyData''), s_email = field b ''email'',
      s_created_at = now\<rparr>"

text \<open>
  The \<^verbatim>\<open>mailOptions\<close> that a request builds, or the error that building them throws.
\<close>

definition contact_mail_of :: "runtime \<Rightarrow> env \<Rightarrow> body \<Rightarrow> instant \<Rightarrow> error + mail" where
  "contact_mail_of rt e b now =
     contact_mail rt e (field b ''name'') (field b ''email'') (field b ''phone'')
       (field b ''message'') (field_default b ''submissionType'' (JStr ''general'')) now"

definition quote_mail_of :: "runtime \<Rightarrow> env \<Rightarrow> body \<Rightarrow> instant \<Rightarrow> error + mail" where
  "quote_mail_of rt e b now =
     quote_mail rt e (field b ''companyName'') (field b ''contactName'') (field b ''email'')
       (field b ''phone'') (field b ''numEmployees'') (field b ''currentProvider'')
       (field b ''interestedIn'') now"

text \<open>The worlds after a successful insert.\<close>

definition contact_inserted :: "body \<Rightarrow> instant \<Rightarrow> world \<Rightarrow> world" where
  "contact_inserted b now w =
     w\<lparr>contact_seq := Suc (contact_seq w),
       contact_submissions :=
         contact_submissions w @ [contact_row_of b (Suc (contact_seq w)) now]\<rparr>"

definition appointment_inserted :: "body \<Rightarrow> instant \<Rightarrow> world \<Rightarrow> world" where
  "appointment_inserted b now w =
     w\<lparr>appointment_seq := Suc (appointment_seq w),
       appointment_requests :=
         appointment_requests w @ [appointment_row_of b (Suc (appointment_seq w)) now]\<rparr>"

definition quote_inserted :: "body \<Rightarrow> instant \<Rightarrow> world \<Rightarrow> world" where
  "quote_inserted b now w =
     w\<lparr>quote_seq := Suc (quote_seq w),
       quote_requests := quote_requests w @ [quote_row_of b (Suc (quote_seq w)) now]\<rparr>"

definition survey_inserted :: "runtime \<Rightarrow> body \<Rightarrow> instant \<Rightarrow> world \<Rightarrow> world" where
  "survey_inserted rt b now w =
     w\<lparr>survey_seq := Suc (survey_seq w),
       survey_submissions :=
         survey_submissions w @ [survey_row_of rt b (Suc (survey_seq w)) now]\<rparr>"

text \<open>The success responses of the five handlers.\<close>

definition contact_ok :: "nat \<Rightarrow> response" where
  "contact_ok i =
     \<lparr>status = 200,
      json = [(''success'', Some (JBool True)),
              (''message'', Some (JStr
                 ''Thank you for contacting us. We will reach out to you soon!'')),
              (''submissionId'', Some (JNum (Finite (of_nat i))))]\<rparr>"

definition appointment_ok :: "env \<Rightarrow> nat \<Rightarrow> response" where
  "appointment_ok e i =
     \<lparr>status = 200,
      json = [(''success'', Some (JBool True)),
              (''message'', Some (JStr
                 ''Appointment request received. We will contact you to confirm.'')),
              (''appointmentId'', Some (JNum (Finite (of_nat i)))),
              (''calendlyUrl'', env_val (CALENDLY_URL e))]\<rparr>"

definition quote_ok :: "nat \<Rightarrow> response" where
  "quote_ok i =
     \<lparr>status = 200,
      json = [(''success'', Some (JBool True)),
              (''message'', Some (JStr
                 ''Quote request received. We will prepare your personalized quote and contact you soon.'')),
              (''quoteId'', Some (JNum (Finite (of_nat i))))]\<rparr>"

definition survey_ok :: "nat \<Rightarrow> response" where
  "survey_ok i =
     \<lparr>status = 200,
      json = [(''success'', Some (JBool True)),
              (''message'', Some (JStr
                 ''Survey submitted successfully. We will review and reach out to guide your journey!'')),
              (''surveyId'', Some (JNum (Finite (of_nat i))))]\<rparr>"

definition newsletter_ok :: response where
  "newsletter_ok =
     \<lparr>status = 200,
      json = [(''success'', Some (JBool True)),
              (''message'', Some (JStr ''Successfully subscribed to our newsletter!''))]\<rparr>"

text \<open>
  The steps after validation all end well: the insert is accepted and, when the
  credentials are configured, the \<^verbatim>\<open>mailOptions\<close> are built without a throw and the
  dispatch does not reject.
\<close>

definition built :: "error + mail \<Rightarrow> bool" where
  "built m = (case m of Inl err \<Rightarrow> False | Inr mailOptions \<Rightarrow> True)"

definition contact_steps_pass :: "runtime \<Rightarrow> env \<Rightarrow> instant \<Rightarrow> body \<Rightarrow> world \<Rightarrow> bool" where
  "contact_steps_pass rt e now b w =
     (store_fault w = None \<and>
      (if configured e then built (contact_mail_of rt e b now) \<and> mail_fault w = None
       else True))"

definition quote_steps_pass :: "runtime \<Rightarrow> env \<Rightarrow> instant \<Rightarrow> body \<Rightarrow> world \<Rightarrow> bool" where
  "quote_steps_pass rt e now b w =
     (store_fault w = None \<and>
      (if configured e then built (quote_mail_of rt e b now) \<and> mail_fault w = None
       else True))"

text \<open>\<^verbatim>\<open>console.error(label, error)\<close> in a \<^verbatim>\<open>catch\<close> block.\<close>

definition logged :: "string \<Rightarrow> error \<Rightarrow> world \<Rightarrow> world" where
  "logged label err w = w\<lparr>console := console w @ [(label, err)]\<rparr>"

definition mailed :: "mail \<Rightarrow> world \<Rightarrow> world" where
  "mailed m w = w\<lparr>sendMail_calls := sendMail_calls w @ [m]\<rparr>"

section \<open>Concrete inputs\<close>

definition initial_world :: world where
  "initial_world =
     \<lparr>contact_submissions = [], contact_seq = 0, appointment_requests = [],
      appointment_seq = 0, quote_requests = [], quote_seq = 0, survey_submissions = [],
      survey_seq = 0, newsletter_subscriptions = [], newsletter_seq = 0,
      store_fault = None, mail_fault = None, sendMail_calls = [], console = []\<rparr>"

definition store_down :: world where
  "store_down = initial_world\<lparr>store_fault := Some ''connect ECONNREFUSED 10.0.0.5:5432''\<rparr>"

definition mail_down :: world where
  "mail_down = initial_world\<lparr>mail_fault := Some ''Invalid login: 535 5.7.8''\<rparr>"

text \<open>
  A runtime for the concrete inputs: instants are rendered in decimal, and the
  renderings of numbers and \<^verbatim>\<open>JSON.stringify\<close> are placeholders.
\<close>

definition digit_char :: "nat \<Rightarrow> char" where
  "digit_char d = ''0123456789'' ! d"

function show_nat :: "nat \<Rightarrow> string" where
  "show_nat n = (if n < 10 then [digit_char n] else show_nat (n div 10) @ [digit_char (n mod 10)])"
  by pat_completeness auto
termination
  by (relation "measure id") auto

declare show_nat.simps [simp del]

definition test_runtime :: runtime where
  "test_runtime =
     \<lparr>numberToString = (\<lambda>x. ''0''), jsonStringify = (\<lambda>j. ''null''),
      dateToString = show_nat, toISOString = show_nat\<rparr>"

definition mail_env :: env where
  "mail_env =
     \<lparr>EMAIL_USER = Some ''staff@llplans.com'', EMAIL_PASSWORD = Some ''secret'',
      EMAIL_FROM = Some ''noreply@llplans.com'', CALENDLY_URL = Some ''https://calendly.com/ll'',
      MEDICARE_SURVEY_URL = None, HEALTHSHERPA_AGENT_ID = None, AMERITAS_LINK = None,
      GEOBLUE_LINK = None, NODE_ENV = None\<rparr>"

definition no_mail_env :: env where
  "no_mail_env = mail_env\<lparr>EMAIL_USER := None, EMAIL_PASSWORD := None\<rparr>"

definition ann_contact :: body where
  "ann_contact = [(''name'', JStr ''Ann''), (''email'', JStr ''a@b.com'')]"

definition anonymous_contact :: body where
  "anonymous_contact = [(''name'', JStr []), (''email'', JStr ''a@b.com'')]"

definition acme_quote :: body where
  "acme_quote =
     [(''companyName'', JStr ''Acme''), (''contactName'', JStr ''Bob''),
      (''email'', JStr ''bob@acme.com''), (''numEmployees'', JStr ''12'')]"

definition nameless_quote :: body where
  "nameless_quote = [(''companyName'', JStr ''Acme''), (''email'', JStr ''bob@acme.com'')]"

definition ann_appointment :: body where
  "ann_appointment =
     [(''name'', JStr ''Ann''), (''email'', JStr ''a@b.com''),
      (''preferredDate'', JStr ''2025-01-15'')]"

definition no_email_appointment :: body where
  "no_email_appointment = [(''name'', JStr ''Ann''), (''phone'', JStr ''555-0100'')]"

section \<open>Notions for the newsletter and the mail templates\<close>

text \<open>
  \<^verbatim>\<open>ON CONFLICT (email)\<close> needs a unique index on the email column: no two rows of
  the newsletter table have the same email.
\<close>

definition unique_emails :: "world \<Rightarrow> bool" where
  "unique_emails w = distinct (map n_email (newsletter_subscriptions w))"

definition rows_for :: "jsval \<Rightarrow> world \<Rightarrow> newsletter_row list" where
  "rows_for email w = filter (\<lambda>r. n_email r = email) (newsletter_subscriptions w)"



definition ann_newsletter :: body where
  "ann_newsletter = [(''email'', JStr ''a@b.com''), (''name'', JStr ''Ann'')]"

definition annie_newsletter :: body where
  "annie_newsletter = [(''email'', JStr ''a@b.com''), (''name'', JStr ''Annie'')]"

text \<open>
  The bodies \<^verbatim>\<open>{"name":{"toString":1},"email":"a@b.com"}\<close> and
  \<^verbatim>\<open>{"companyName":{"toString":null},"contactName":"Bob","email":"bob@acme.com"}\<close>.
\<close>

definition unconvertible_contact :: body where
  "unconvertible_contact =
     [(''name'', JObj [(''toString'', JNum (Finite 1))]), (''email'', JStr ''a@b.com'')]"

definition unconvertible_quote :: body where
  "unconvertible_quote =
     [(''companyName'', JObj [(''toString'', JNull)]), (''contactName'', JStr ''Bob''),
      (''email'', JStr ''bob@acme.com'')]"

definition markup_contact :: body where
  "markup_contact = [(''name'', JStr ''<b>Ann</b>''), (''phone'', JStr ''555-0100'')]"

text \<open>The mails that the concrete requests build at instant 7.\<close>

definition ann_mail :: mail where
  "ann_mail =
     \<lparr>mail_from = Some (JStr ''noreply@llplans.com''),
      mail_to = Some (JStr ''staff@llplans.com''),
      subject = ''New Contact Form Submission - general'',
      html = contact_html ''Ann'' ''a@b.com'' ''Not provided'' ''undefined'' ''general'' ''7''\<rparr>"

definition acme_mail :: mail where
  "acme_mail =
     \<lparr>mail_from = Some (JStr ''noreply@llplans.com''),
      mail_to = Some (JStr ''staff@llplans.com''),
      subject = ''New Group Insurance Quote Request - Acme'',
      html = quote_html ''Acme'' ''Bob'' ''bob@acme.com'' ''Not provided'' ''12'' ''None''
        ''General Information'' ''7''\<rparr>"

definition markup_mail :: mail where
  "markup_mail =
     \<lparr>mail_from = Some (JStr ''noreply@llplans.com''),
      mail_to = Some (JStr ''staff@llplans.com''),
      subject = ''New Contact Form Submission - general'',
      html = contact_html ''<b>Ann</b>'' ''Not provided'' ''555-0100'' ''undefined'' ''general''
        ''7''\<rparr>"

section \<open>Verified properties\<close>

lemma show_nat_small: "n < 10 \<Longrightarrow> show_nat n = [digit_char n]"
  by (subst show_nat.simps) simp

lemma show_nat_big:
  "\<not> n < 10 \<Longrightarrow> show_nat n = show_nat (n div 10) @ [digit_char (n mod 10)]"
  by (subst show_nat.simps) simp

section \<open>The handlers case by case\<close>

lemmas world_defs = logged_def mailed_def contact_inserted_def appointment_inserted_def
  quote_inserted_def survey_inserted_def contact_row_of_def appointment_row_of_def
  quote_row_of_def survey_row_of_def

lemmas contact_defs = post_contact_def post_contact_try_def insert_contact_submission_def
  sendMail_def Let_def bad_request_def server_error_def contact_required_def configured_def
  contact_ok_def contact_mail_of_def

lemma configured_iff:
  "configured e \<longleftrightarrow>
     (\<exists>u p. EMAIL_USER e = Some u \<and> u \<noteq> [] \<and> EMAIL_PASSWORD e = Some p \<and> p \<noteq> [])"
  by (cases "EMAIL_USER e"; cases "EMAIL_PASSWORD e") (auto simp: configured_def env_val_def)

lemma truthy_string: "truthy (Some (JStr s)) \<longleftrightarrow> s \<noteq> []"
  by simp

lemma post_contact_rejected:
  "\<not> contact_required b \<Longrightarrow>
     post_contact_try rt e now b w =
       (Inr (bad_request ''Name and either email or phone number are required''), w)"
  by (auto simp: post_contact_try_def contact_required_def Let_def)

lemma post_contact_store_fault:
  "contact_required b \<Longrightarrow> store_fault w = Some d \<Longrightarrow>
     post_contact_try rt e now b w = (Inl (Error d), w)"
  by (auto simp: post_contact_try_def insert_contact_submission_def contact_required_def Let_def)

lemma post_contact_skipped:
  "contact_required b \<Longrightarrow> store_fault w = None \<Longrightarrow> \<not> configured e \<Longrightarrow>
     post_contact_try rt e now b w =
       (Inr (contact_ok (Suc (contact_seq w))), contact_inserted b now w)"
  by (auto simp: contact_defs world_defs)

lemma post_contact_not_built:
  "contact_required b \<Longrightarrow> store_fault w = None \<Longrightarrow> configured e \<Longrightarrow>
   contact_mail_of rt e b now = Inl err \<Longrightarrow>
     post_contact_try rt e now b w = (Inl err, contact_inserted b now w)"
  by (auto simp: contact_defs world_defs)

lemma post_contact_notified:
  "contact_required b \<Longrightarrow> store_fault w = None \<Longrightarrow> configured e \<Longrightarrow>
   contact_mail_of rt e b now = Inr m \<Longrightarrow> mail_fault w = None \<Longrightarrow>
     post_contact_try rt e now b w =
       (Inr (contact_ok (Suc (contact_seq w))), mailed m (contact_inserted b now w))"
  by (auto simp: contact_defs world_defs)

lemma post_contact_mail_fault:
  "contact_required b \<Longrightarrow> store_fault w = None \<Longrightarrow> configured e \<Longrightarrow>
   contact_mail_of rt e b now = Inr m \<Longrightarrow> mail_fault w = Some d \<Longrightarrow>
     post_contact_try rt e now b w = (Inl (Error d), mailed m (contact_inserted b now w))"
  by (auto simp: contact_defs world_defs)

lemma post_contact_catch:
  "post_contact rt e now b w =
     (case post_contact_try rt e now b w of
        (Inr r, w') \<Rightarrow> (r, w')
      | (Inl err, w') \<Rightarrow>
          (server_error ''Failed to submit contact form'', logged ''Contact form error:'' err w'))"
  by (simp add: post_contact_def logged_def split: prod.splits sum.splits)

lemma post_appointment_rejected:
  "\<not> appointment_required b \<Longrightarrow>
     post_appointment_try e now b w =
       (Inr (bad_request ''Name and email are required for appointment requests''), w)"
  by (auto simp: post_appointment_try_def appointment_required_def Let_def)

lemma post_appointment_store_fault:
  "appointment_required b \<Longrightarrow> store_fault w = Some d \<Longrightarrow>
     post_appointment_try e now b w = (Inl (Error d), w)"
  by (auto simp: post_appointment_try_def insert_appointment_request_def
      appointment_required_def Let_def)

lemma post_appointment_stored:
  "appointment_required b \<Longrightarrow> store_fault w = None \<Longrightarrow>
     post_appointment_try e now b w =
       (Inr (appointment_ok e (Suc (appointment_seq w))), appointment_inserted b now w)"
  by (auto simp: post_appointment_try_def insert_appointment_request_def
      appointment_required_def appointment_ok_def Let_def world_defs)

lemma post_appointment_catch:
  "post_appointment e now b w =
     (case post_appointment_try e now b w of
        (Inr r, w') \<Rightarrow> (r, w')
      | (Inl err, w') \<Rightarrow>
          (server_error ''Failed to submit appointment request'',
           logged ''Appointment request error:'' err w'))"
  by (simp add: post_appointment_def logged_def split: prod.splits sum.splits)

lemmas quote_defs = post_quote_try_def insert_quote_request_def sendMail_def Let_def
  quote_required_def configured_def quote_ok_def quote_mail_of_def

lemma post_quote_rejected:
  "\<not> quote_required b \<Longrightarrow>
     post_quote_try rt e now b w =
       (Inr (bad_request ''Contact name and email are required for quote requests''), w)"
  by (auto simp: post_quote_try_def quote_required_def Let_def)

lemma post_quote_store_fault:
  "quote_required b \<Longrightarrow> store_fault w = Some d \<Longrightarrow>
     post_quote_try rt e now b w = (Inl (Error d), w)"
  by (auto simp: post_quote_try_def insert_quote_request_def quote_required_def Let_def)

lemma post_quote_skipped:
  "quote_required b \<Longrightarrow> store_fault w = None \<Longrightarrow> \<not> configured e \<Longrightarrow>
     post_quote_try rt e now b w =
       (Inr (quote_ok (Suc (quote_seq w))), quote_inserted b now w)"
  by (auto simp: quote_defs world_defs)

lemma post_quote_not_built:
  "quote_required b \<Longrightarrow> store_fault w = None \<Longrightarrow> configured e \<Longrightarrow>
   quote_mail_of rt e b now = Inl err \<Longrightarrow>
     post_quote_try rt e now b w = (Inl err, quote_inserted b now w)"
  by (auto simp: quote_defs world_defs)

lemma post_quote_notified:
  "quote_required b \<Longrightarrow> store_fault w = None \<Longrightarrow> configured e \<Longrightarrow>
   quote_mail_of rt e b now = Inr m \<Longrightarrow> mail_fault w = None \<Longrightarrow>
     post_quote_try rt e now b w =
       (Inr (quote_ok (Suc (quote_seq w))), mailed m (quote_inserted b now w))"
  by (auto simp: quote_defs world_defs)

lemma post_quote_mail_fault:
  "quote_required b \<Longrightarrow> store_fault w = None \<Longrightarrow> configured e \<Longrightarrow>
   quote_mail_of rt e b now = Inr m \<Longrightarrow> mail_fault w = Some d \<Longrightarrow>
     post_quote_try rt e now b w = (Inl (Error d), mailed m (quote_inserted b now w))"
  by (auto simp: quote_defs world_defs)

lemma post_quote_catch:
  "post_quote rt e now b w =
     (case post_quote_try rt e now b w of
        (Inr r, w') \<Rightarrow> (r, w')
      | (Inl err, w') \<Rightarrow>
          (server_error ''Failed to submit quote request'',
           logged ''Quote request error:'' err w'))"
  by (simp add: post_quote_def logged_def split: prod.splits sum.splits)

lemma post_survey_store_fault:
  "store_fault w = Some d \<Longrightarrow> post_survey_try rt now b w = (Inl (Error d), w)"
  by (simp add: post_survey_try_def insert_survey_submission_def Let_def)

lemma post_survey_stored:
  "store_fault w = None \<Longrightarrow>
     post_survey_try rt now b w =
       (Inr (survey_ok (Suc (survey_seq w))), survey_inserted rt b now w)"
  by (simp add: post_survey_try_def insert_survey_submission_def survey_ok_def Let_def
      world_defs)

lemma post_survey_catch:
  "post_survey rt now b w =
     (case post_survey_try rt now b w of
        (Inr r, w') \<Rightarrow> (r, w')
      | (Inl err, w') \<Rightarrow>
          (server_error ''Failed to submit survey'', logged ''Survey submission error:'' err w'))"
  by (simp add: post_survey_def logged_def split: prod.splits sum.splits)

lemma post_newsletter_rejected:
  "\<not> truthy (field b ''email'') \<Longrightarrow>
     post_newsletter_try now b w =
       (Inr (bad_request ''Email is required for newsletter subscription''), w)"
  by (simp add: post_newsletter_try_def Let_def)

lemma post_newsletter_store_fault:
  "truthy (field b ''email'') \<Longrightarrow> store_fault w = Some d \<Longrightarrow>
     post_newsletter_try now b w = (Inl (Error d), w)"
  by (simp add: post_newsletter_try_def upsert_newsletter_subscription_def Let_def)

lemma post_newsletter_stored:
  "truthy (field b ''email'') \<Longrightarrow> store_fault w = None \<Longrightarrow>
     post_newsletter_try now b w =
       (Inr newsletter_ok,
        snd (upsert_newsletter_subscription (field b ''email'') (field b ''name'') now w))"
  by (simp add: post_newsletter_try_def upsert_newsletter_subscription_def newsletter_ok_def
      Let_def split: option.splits)

lemma post_newsletter_catch:
  "post_newsletter now b w =
     (case post_newsletter_try now b w of
        (Inr r, w') \<Rightarrow> (r, w')
      | (Inl err, w') \<Rightarrow>
          (server_error ''Failed to subscribe to newsletter'',
           logged ''Newsletter subscription error:'' err w'))"
  by (simp add: post_newsletter_def logged_def split: prod.splits sum.splits)

lemma upsert_keeps_mail_log:
  "sendMail_calls (snd (upsert_newsletter_subscription email name now w)) = sendMail_calls w"
  by (simp add: upsert_newsletter_subscription_def split: option.splits)

lemma is_success_simps:
  "is_success (contact_ok i)" "is_success (appointment_ok e i)" "is_success (quote_ok i)"
  "is_success (survey_ok i)" "is_success newsletter_ok"
  "\<not> is_success (bad_request m)" "\<not> is_success (server_error m)"
  by (simp_all add: is_success_def contact_ok_def appointment_ok_def quote_ok_def
      survey_ok_def newsletter_ok_def bad_request_def server_error_def)

lemma status_simps:
  "status (contact_ok i) = 200" "status (appointment_ok e i) = 200" "status (quote_ok i) = 200"
  "status (survey_ok i) = 200" "status newsletter_ok = 200"
  "status (bad_request m) = 400" "status (server_error m) = 500"
  by (simp_all add: contact_ok_def appointment_ok_def quote_ok_def
      survey_ok_def newsletter_ok_def bad_request_def server_error_def)

lemma fixture_simps:
  "contact_required ann_contact" "\<not> contact_required anonymous_contact"
  "quote_required acme_quote" "\<not> quote_required nameless_quote"
  "appointment_required ann_appointment" "\<not> appointment_required no_email_appointment"
  "configured mail_env" "\<not> configured no_mail_env"
  "store_fault initial_world = None" "mail_fault initial_world = None"
  "store_fault mail_down = None" "mail_fault mail_down = Some ''Invalid login: 535 5.7.8''"
  "store_fault store_down = Some ''connect ECONNREFUSED 10.0.0.5:5432''"
  by (simp_all add: contact_required_def quote_required_def appointment_required_def
      ann_contact_def anonymous_contact_def acme_quote_def nameless_quote_def
      ann_appointment_def no_email_appointment_def configured_def mail_env_def no_mail_env_def
      env_val_def field_def initial_world_def mail_down_def store_down_def)

lemma initial_seq_simps:
  "contact_seq initial_world = 0" "appointment_seq initial_world = 0"
  "quote_seq initial_world = 0" "survey_seq initial_world = 0"
  "newsletter_seq initial_world = 0"
  by (simp_all add: initial_world_def)

section \<open>C10: the health check\<close>

text \<open>
  C10. \<^verbatim>\<open>GET /api/health\<close> answers with status 200, \<^verbatim>\<open>status: 'healthy'\<close>, the fixed
  message and the current time, whatever the environment and the world are, and it
  leaves the world as it was: the store is not consulted, so the answer is the same
  when the store is unreachable.
\<close>

theorem health_always_healthy:
  "get_health rt e now w =
     (\<lparr>status = 200,
       json = [(''status'', Some (JStr ''healthy'')),
               (''message'', Some (JStr ''LifeLine Health Plans API is running'')),
               (''timestamp'', Some (JStr (toISOString rt now)))]\<rparr>, w)
   \<and> fst (get_health rt e now w) = fst (get_health rt e' now w')"
  by (simp add: get_health_def)

theorem health_always_healthy_witness:
  "fst (get_health test_runtime mail_env 7 store_down) =
     \<lparr>status = 200,
      json = [(''status'', Some (JStr ''healthy'')),
              (''message'', Some (JStr ''LifeLine Health Plans API is running'')),
              (''timestamp'', Some (JStr ''7''))]\<rparr>
   \<and> snd (get_health test_runtime mail_env 7 store_down) = store_down
   \<and> store_fault store_down = Some ''connect ECONNREFUSED 10.0.0.5:5432''"
  using health_always_healthy [of test_runtime mail_env 7 store_down mail_env store_down]
  by (simp add: test_runtime_def show_nat_small digit_char_def fixture_simps)

section \<open>The mails of the concrete requests\<close>

lemmas mail_eval = contact_mail_of_def contact_mail_def quote_mail_of_def quote_mail_def
  and_then_def to_string_def or_else_def field_def field_default_def env_val_def
  test_runtime_def show_nat_small digit_char_def type_error_def

lemma fixture_mails:
  "contact_mail_of test_runtime mail_env ann_contact 7 = Inr ann_mail"
  "quote_mail_of test_runtime mail_env acme_quote 7 = Inr acme_mail"
  "contact_mail_of test_runtime mail_env markup_contact 7 = Inr markup_mail"
  "contact_mail_of test_runtime mail_env unconvertible_contact 7 = Inl type_error"
  "quote_mail_of test_runtime mail_env unconvertible_quote 7 = Inl type_error"
  by (simp_all add: mail_eval mail_env_def ann_contact_def acme_quote_def markup_contact_def
      unconvertible_contact_def unconvertible_quote_def ann_mail_def acme_mail_def
      markup_mail_def)

lemma unconvertible_simps:
  "contact_required unconvertible_contact" "quote_required unconvertible_quote"
  "contact_required markup_contact"
  by (simp_all add: contact_required_def quote_required_def unconvertible_contact_def
      unconvertible_quote_def markup_contact_def field_def)

lemma built_simps: "built (Inr m)" "\<not> built (Inl err)"
  by (simp_all add: built_def)

section \<open>C1: validation of a contact submission\<close>

text \<open>
  C1 as stated makes the required fields alone decide between success and the 400
  response. That fails. With the required fields present, the row stored and the
  credentials configured, a mail transport that rejects turns the response into the
  500 of the \<^verbatim>\<open>catch\<close> block; and so does a name that has no string conversion,
  as in the body \<^verbatim>\<open>{"name":{"toString":1},"email":"a@b.com"}\<close>, with the store and the
  transport both accepting.
\<close>

theorem contact_success_iff_fields_counterexample:
  "contact_required ann_contact
   \<and> \<not> is_success (fst (post_contact test_runtime mail_env 7 ann_contact mail_down))
   \<and> fst (post_contact test_runtime mail_env 7 ann_contact mail_down) =
       server_error ''Failed to submit contact form''
   \<and> contact_required unconvertible_contact
   \<and> \<not> is_success
         (fst (post_contact test_runtime mail_env 7 unconvertible_contact initial_world))
   \<and> fst (post_contact test_runtime mail_env 7 unconvertible_contact initial_world) =
       server_error ''Failed to submit contact form''"
  by (simp add: post_contact_catch
      post_contact_mail_fault [where d = "''Invalid login: 535 5.7.8''" and m = ann_mail]
      post_contact_not_built [where err = type_error]
      fixture_simps fixture_mails unconvertible_simps is_success_simps)

text \<open>
  C1, amended. A contact request whose name is empty, or whose email and phone are
  both empty, gets the 400 response with the message
  \<^verbatim>\<open>Name and either email or phone number are required\<close>, and the world (so every
  table) is unchanged. A request with the required fields never gets a 400. It gets
  the success response with \<^verbatim>\<open>success\<close>, \<^verbatim>\<open>message\<close> and \<^verbatim>\<open>submissionId\<close> when the
  steps that follow all end well: the insert is accepted and, if the credentials are
  configured, every value of the mail converts to a string and the dispatch does not
  reject. In every other case it gets the 500 response with the message
  \<^verbatim>\<open>Failed to submit contact form\<close>. So a response is a success exactly when the
  required fields are present and the steps end well.
\<close>

theorem contact_response_by_fields:
  "(\<not> contact_required b \<longrightarrow>
      post_contact rt e now b w =
        (bad_request ''Name and either email or phone number are required'', w))
   \<and> (contact_required b \<longrightarrow> status (fst (post_contact rt e now b w)) \<noteq> 400)
   \<and> (contact_required b \<and> contact_steps_pass rt e now b w \<longrightarrow>
        fst (post_contact rt e now b w) = contact_ok (Suc (contact_seq w)))
   \<and> (contact_required b \<and> \<not> contact_steps_pass rt e now b w \<longrightarrow>
        fst (post_contact rt e now b w) = server_error ''Failed to submit contact form'')
   \<and> (is_success (fst (post_contact rt e now b w)) \<longleftrightarrow>
        contact_required b \<and> contact_steps_pass rt e now b w)"
proof (cases "contact_required b")
  case False
  then show ?thesis
    by (simp add: post_contact_catch post_contact_rejected is_success_simps)
next
  case valid: True
  show ?thesis
  proof (cases "store_fault w")
    case (Some d)
    with valid show ?thesis
      by (simp add: post_contact_catch post_contact_store_fault is_success_simps status_simps
          contact_steps_pass_def)
  next
    case up: None
    show ?thesis
    proof (cases "configured e")
      case False
      with valid up show ?thesis
        by (simp add: post_contact_catch post_contact_skipped is_success_simps status_simps
            contact_steps_pass_def)
    next
      case creds: True
      show ?thesis
      proof (cases "contact_mail_of rt e b now")
        case (Inl err)
        with valid up creds show ?thesis
          by (simp add: post_contact_catch post_contact_not_built is_success_simps
              status_simps contact_steps_pass_def built_simps)
      next
        case (Inr m)
        with valid up creds show ?thesis
          by (cases "mail_fault w")
            (simp_all add: post_contact_catch post_contact_notified post_contact_mail_fault
              is_success_simps status_simps contact_steps_pass_def built_simps)
      qed
    qed
  qed
qed

theorem contact_response_by_fields_witness:
  "post_contact test_runtime mail_env 7 anonymous_contact initial_world =
     (bad_request ''Name and either email or phone number are required'', initial_world)
   \<and> contact_required ann_contact \<and> \<not> contact_required anonymous_contact
   \<and> contact_steps_pass test_runtime mail_env 7 ann_contact initial_world
   \<and> fst (post_contact test_runtime mail_env 7 ann_contact initial_world) = contact_ok (Suc 0)
   \<and> is_success (fst (post_contact test_runtime mail_env 7 ann_contact initial_world))
   \<and> contact_required unconvertible_contact
   \<and> \<not> contact_steps_pass test_runtime mail_env 7 unconvertible_contact initial_world
   \<and> fst (post_contact test_runtime mail_env 7 unconvertible_contact initial_world) =
       server_error ''Failed to submit contact form''"
  using contact_response_by_fields
          [where b = anonymous_contact and rt = test_runtime and e = mail_env and now = 7
             and w = initial_world]
        contact_response_by_fields
          [where b = ann_contact and rt = test_runtime and e = mail_env and now = 7
             and w = initial_world]
        contact_response_by_fields
          [where b = unconvertible_contact and rt = test_runtime and e = mail_env and now = 7
             and w = initial_world]
  by (simp add: fixture_simps initial_seq_simps is_success_simps unconvertible_simps
      contact_steps_pass_def fixture_mails built_simps)

section \<open>C2: validation of appointment and quote submissions\<close>

text \<open>
  C2 as stated fails for the quote handler in the same two ways: a quote with contact
  name and email gets the 500 response when the row is stored and the mail transport
  rejects, and when its company name has no string conversion, as in the body
  \<^verbatim>\<open>{"companyName":{"toString":null},"contactName":"Bob","email":"bob@acme.com"}\<close>.
\<close>

theorem appointment_quote_success_iff_fields_counterexample:
  "quote_required acme_quote
   \<and> fst (post_quote test_runtime mail_env 7 acme_quote mail_down) =
       server_error ''Failed to submit quote request''
   \<and> \<not> is_success (fst (post_quote test_runtime mail_env 7 acme_quote mail_down))
   \<and> quote_required unconvertible_quote
   \<and> fst (post_quote test_runtime mail_env 7 unconvertible_quote initial_world) =
       server_error ''Failed to submit quote request''
   \<and> \<not> is_success (fst (post_quote test_runtime mail_env 7 unconvertible_quote initial_world))"
  by (simp add: post_quote_catch
      post_quote_mail_fault [where d = "''Invalid login: 535 5.7.8''" and m = acme_mail]
      post_quote_not_built [where err = type_error]
      fixture_simps fixture_mails unconvertible_simps is_success_simps)

text \<open>
  C2, amended. An appointment request without name or without email, and a quote
  request without contact name or without email, gets the 400 response of its handler
  and the world is unchanged. With both fields present the response is never a 400:
  an appointment gets the success response when the insert is accepted and otherwise
  the 500 response \<^verbatim>\<open>Failed to submit appointment request\<close>; a quote gets the success
  response when the insert is accepted and, if the credentials are configured, every
  value of the mail converts to a string and the dispatch does not reject, and
  otherwise the 500 response \<^verbatim>\<open>Failed to submit quote request\<close>.
\<close>

theorem appointment_quote_response_by_fields:
  "(\<not> appointment_required b \<longrightarrow>
      post_appointment e now b w =
        (bad_request ''Name and email are required for appointment requests'', w))
   \<and> (appointment_required b \<longrightarrow> status (fst (post_appointment e now b w)) \<noteq> 400)
   \<and> (appointment_required b \<and> store_fault w = None \<longrightarrow>
        fst (post_appointment e now b w) = appointment_ok e (Suc (appointment_seq w)))
   \<and> (appointment_required b \<and> store_fault w \<noteq> None \<longrightarrow>
        fst (post_appointment e now b w) =
          server_error ''Failed to submit appointment request'')
   \<and> (is_success (fst (post_appointment e now b w)) \<longleftrightarrow>
        appointment_required b \<and> store_fault w = None)
   \<and> (\<not> quote_required q \<longrightarrow>
        post_quote rt e now q w =
          (bad_request ''Contact name and email are required for quote requests'', w))
   \<and> (quote_required q \<longrightarrow> status (fst (post_quote rt e now q w)) \<noteq> 400)
   \<and> (quote_required q \<and> quote_steps_pass rt e now q w \<longrightarrow>
        fst (post_quote rt e now q w) = quote_ok (Suc (quote_seq w)))
   \<and> (quote_required q \<and> \<not> quote_steps_pass rt e now q w \<longrightarrow>
        fst (post_quote rt e now q w) = server_error ''Failed to submit quote request'')
   \<and> (is_success (fst (post_quote rt e now q w)) \<longleftrightarrow>
        quote_required q \<and> quote_steps_pass rt e now q w)"
proof -
  have appointment:
    "(\<not> appointment_required b \<longrightarrow>
        post_appointment e now b w =
          (bad_request ''Name and email are required for appointment requests'', w))
     \<and> (appointment_required b \<longrightarrow> status (fst (post_appointment e now b w)) \<noteq> 400)
     \<and> (appointment_required b \<and> store_fault w = None \<longrightarrow>
          fst (post_appointment e now b w) = appointment_ok e (Suc (appointment_seq w)))
     \<and> (appointment_required b \<and> store_fault w \<noteq> None \<longrightarrow>
          fst (post_appointment e now b w) =
            server_error ''Failed to submit appointment request'')
     \<and> (is_success (fst (post_appointment e now b w)) \<longleftrightarrow>
          appointment_required b \<and> store_fault w = None)"
  proof (cases "appointment_required b")
    case False
    then show ?thesis
      by (simp add: post_appointment_catch post_appointment_rejected is_success_simps)
  next
    case True
    then show ?thesis
      by (cases "store_fault w")
        (simp_all add: post_appointment_catch post_appointment_stored
          post_appointment_store_fault is_success_simps status_simps)
  qed
  have quote:
    "(\<not> quote_required q \<longrightarrow>
        post_quote rt e now q w =
          (bad_request ''Contact name and email are required for quote requests'', w))
     \<and> (quote_required q \<longrightarrow> status (fst (post_quote rt e now q w)) \<noteq> 400)
     \<and> (quote_required q \<and> quote_steps_pass rt e now q w \<longrightarrow>
          fst (post_quote rt e now q w) = quote_ok (Suc (quote_seq w)))
     \<and> (quote_required q \<and> \<not> quote_steps_pass rt e now q w \<longrightarrow>
          fst (post_quote rt e now q w) = server_error ''Failed to submit quote request'')
     \<and> (is_success (fst (post_quote rt e now q w)) \<longleftrightarrow>
          quote_required q \<and> quote_steps_pass rt e now q w)"
  proof (cases "quote_required q")
    case False
    then show ?thesis
      by (simp add: post_quote_catch post_quote_rejected is_success_simps)
  next
    case valid: True
    show ?thesis
    proof (cases "store_fault w")
      case (Some d)
      with valid show ?thesis
        by (simp add: post_quote_catch post_quote_store_fault is_success_simps status_simps
            quote_steps_pass_def)
    next
      case up: None
      show ?thesis
      proof (cases "configured e")
        case False
        with valid up show ?thesis
          by (simp add: post_quote_catch post_quote_skipped is_success_simps status_simps
              quote_steps_pass_def)
      next
        case creds: True
        show ?thesis
        proof (cases "quote_mail_of rt e q now")
          case (Inl err)
          with valid up creds show ?thesis
            by (simp add: post_quote_catch post_quote_not_built is_success_simps
                status_simps quote_steps_pass_def built_simps)
        next
          case (Inr m)
          with valid up creds show ?thesis
            by (cases "mail_fault w")
              (simp_all add: post_quote_catch post_quote_notified post_quote_mail_fault
                is_success_simps status_simps quote_steps_pass_def built_simps)
        qed
      qed
    qed
  qed
  from appointment quote show ?thesis by simp
qed

theorem appointment_quote_response_by_fields_witness:
  "post_appointment mail_env 7 no_email_appointment initial_world =
     (bad_request ''Name and email are required for appointment requests'', initial_world)
   \<and> fst (post_appointment mail_env 7 ann_appointment initial_world) =
       appointment_ok mail_env (Suc 0)
   \<and> post_quote test_runtime mail_env 7 nameless_quote initial_world =
       (bad_request ''Contact name and email are required for quote requests'', initial_world)
   \<and> quote_steps_pass test_runtime mail_env 7 acme_quote initial_world
   \<and> fst (post_quote test_runtime mail_env 7 acme_quote initial_world) = quote_ok (Suc 0)
   \<and> is_success (fst (post_quote test_runtime mail_env 7 acme_quote initial_world))
   \<and> appointment_required ann_appointment \<and> store_fault store_down \<noteq> None
   \<and> fst (post_appointment mail_env 7 ann_appointment store_down) =
       server_error ''Failed to submit appointment request''
   \<and> quote_required unconvertible_quote
   \<and> \<not> quote_steps_pass test_runtime mail_env 7 unconvertible_quote initial_world
   \<and> fst (post_quote test_runtime mail_env 7 unconvertible_quote initial_world) =
       server_error ''Failed to submit quote request''"
  using appointment_quote_response_by_fields
          [where b = no_email_appointment and q = nameless_quote and rt = test_runtime
             and e = mail_env and now = 7 and w = initial_world]
        appointment_quote_response_by_fields
          [where b = ann_appointment and q = acme_quote and rt = test_runtime
             and e = mail_env and now = 7 and w = initial_world]
        appointment_quote_response_by_fields
          [where b = ann_appointment and q = acme_quote and rt = test_runtime
             and e = mail_env and now = 7 and w = store_down]
        appointment_quote_response_by_fields
          [where b = ann_appointment and q = unconvertible_quote and rt = test_runtime
             and e = mail_env and now = 7 and w = initial_world]
  by (simp add: fixture_simps initial_seq_simps is_success_simps unconvertible_simps
      quote_steps_pass_def fixture_mails built_simps)

lemma inserted_keeps_mail_log:
  "sendMail_calls (contact_inserted b now w) = sendMail_calls w"
  "sendMail_calls (quote_inserted b now w) = sendMail_calls w"
  "sendMail_calls (appointment_inserted b now w) = sendMail_calls w"
  "sendMail_calls (survey_inserted rt b now w) = sendMail_calls w"
  by (simp_all add: world_defs)

lemma more_fixture_simps:
  "EMAIL_USER no_mail_env = None" "EMAIL_PASSWORD no_mail_env = None"
  "NODE_ENV mail_env = None"
  "contact_seq mail_down = 0" "quote_seq mail_down = 0"
  "contact_submissions mail_down = []" "quote_requests mail_down = []"
  "sendMail_calls mail_down = []" "sendMail_calls initial_world = []"
  by (simp_all add: no_mail_env_def mail_env_def mail_down_def initial_world_def)

lemma ann_contact_simps:
  "appointment_required ann_contact" "truthy (field ann_contact ''email'')"
  by (simp_all add: appointment_required_def ann_contact_def field_def)

section \<open>C5: no credentials, no dispatch\<close>

text \<open>
  C5. The handlers test \<^verbatim>\<open>EMAIL_USER && EMAIL_PASSWORD\<close>. When one of the two is
  absent (or empty), a contact or a quote submission never calls \<^verbatim>\<open>sendMail\<close>,
  whatever the request and the state of the transport, so \<^verbatim>\<open>sendMail\<close> is called
  only when both are configured; and the outcome of a submission with its required
  fields is that of its insert alone: when the store accepts it, the row is appended,
  nothing else changes and the response is the success response.
\<close>

theorem no_credentials_no_dispatch:
  "(EMAIL_USER e = None \<or> EMAIL_PASSWORD e = None \<longrightarrow> \<not> configured e)
   \<and> (\<not> configured e \<longrightarrow>
        sendMail_calls (snd (post_contact rt e now b w)) = sendMail_calls w
        \<and> sendMail_calls (snd (post_quote rt e now q w)) = sendMail_calls w)
   \<and> (\<not> configured e \<and> contact_required b \<longrightarrow>
        post_contact rt e now b w =
          (case store_fault w of
             None \<Rightarrow> (contact_ok (Suc (contact_seq w)), contact_inserted b now w)
           | Some d \<Rightarrow>
               (server_error ''Failed to submit contact form'',
                logged ''Contact form error:'' (Error d) w)))
   \<and> (\<not> configured e \<and> quote_required q \<longrightarrow>
        post_quote rt e now q w =
          (case store_fault w of
             None \<Rightarrow> (quote_ok (Suc (quote_seq w)), quote_inserted q now w)
           | Some d \<Rightarrow>
               (server_error ''Failed to submit quote request'',
                logged ''Quote request error:'' (Error d) w)))"
proof -
  have absent: "EMAIL_USER e = None \<or> EMAIL_PASSWORD e = None \<longrightarrow> \<not> configured e"
    by (auto simp: configured_iff)
  have contact:
    "post_contact rt e now b w =
       (case store_fault w of
          None \<Rightarrow> (contact_ok (Suc (contact_seq w)), contact_inserted b now w)
        | Some d \<Rightarrow>
            (server_error ''Failed to submit contact form'',
             logged ''Contact form error:'' (Error d) w))"
    if "\<not> configured e" "contact_required b"
    using that
    by (cases "store_fault w")
      (simp_all add: post_contact_catch post_contact_skipped post_contact_store_fault)
  have quote:
    "post_quote rt e now q w =
       (case store_fault w of
          None \<Rightarrow> (quote_ok (Suc (quote_seq w)), quote_inserted q now w)
        | Some d \<Rightarrow>
            (server_error ''Failed to submit quote request'',
             logged ''Quote request error:'' (Error d) w))"
    if "\<not> configured e" "quote_required q"
    using that
    by (cases "store_fault w")
      (simp_all add: post_quote_catch post_quote_skipped post_quote_store_fault)
  have contact_calls:
    "sendMail_calls (snd (post_contact rt e now b w)) = sendMail_calls w" if "\<not> configured e"
  proof (cases "contact_required b")
    case False
    then show ?thesis by (simp add: post_contact_catch post_contact_rejected)
  next
    case True
    with that show ?thesis
      by (cases "store_fault w")
        (simp_all add: contact logged_def inserted_keeps_mail_log)
  qed
  have quote_calls:
    "sendMail_calls (snd (post_quote rt e now q w)) = sendMail_calls w" if "\<not> configured e"
  proof (cases "quote_required q")
    case False
    then show ?thesis by (simp add: post_quote_catch post_quote_rejected)
  next
    case True
    with that show ?thesis
      by (cases "store_fault w")
        (simp_all add: quote logged_def inserted_keeps_mail_log)
  qed
  from absent contact_calls quote_calls contact quote show ?thesis by blast
qed

theorem no_credentials_no_dispatch_witness:
  "EMAIL_USER no_mail_env = None \<and> \<not> configured no_mail_env
   \<and> contact_required ann_contact \<and> quote_required acme_quote
   \<and> store_fault mail_down = None
   \<and> sendMail_calls (snd (post_contact test_runtime no_mail_env 7 ann_contact mail_down)) =
       sendMail_calls mail_down
   \<and> sendMail_calls (snd (post_quote test_runtime no_mail_env 7 acme_quote mail_down)) =
       sendMail_calls mail_down
   \<and> post_contact test_runtime no_mail_env 7 ann_contact mail_down =
       (contact_ok (Suc 0), contact_inserted ann_contact 7 mail_down)
   \<and> post_quote test_runtime no_mail_env 7 acme_quote mail_down =
       (quote_ok (Suc 0), quote_inserted acme_quote 7 mail_down)"
  using no_credentials_no_dispatch
          [where e = no_mail_env and rt = test_runtime and now = 7 and b = ann_contact
             and q = acme_quote and w = mail_down]
  by (simp add: fixture_simps more_fixture_simps inserted_keeps_mail_log)

section \<open>C6: appointment, survey and newsletter send no mail\<close>

text \<open>
  C6. For every request, environment and world, the appointment, survey and newsletter
  handlers leave the log of \<^verbatim>\<open>sendMail\<close> calls as it was: none of them dispatches a
  notification, with or without credentials.
\<close>

theorem no_mail_from_appointment_survey_newsletter:
  "sendMail_calls (snd (post_appointment e now b w)) = sendMail_calls w
   \<and> sendMail_calls (snd (post_survey rt now b w)) = sendMail_calls w
   \<and> sendMail_calls (snd (post_newsletter now b w)) = sendMail_calls w"
proof -
  have appointment: "sendMail_calls (snd (post_appointment e now b w)) = sendMail_calls w"
  proof (cases "appointment_required b")
    case False
    then show ?thesis by (simp add: post_appointment_catch post_appointment_rejected)
  next
    case True
    then show ?thesis
      by (cases "store_fault w")
        (simp_all add: post_appointment_catch post_appointment_stored
          post_appointment_store_fault logged_def appointment_inserted_def)
  qed
  have survey: "sendMail_calls (snd (post_survey rt now b w)) = sendMail_calls w"
    by (cases "store_fault w")
      (simp_all add: post_survey_catch post_survey_stored post_survey_store_fault
        logged_def survey_inserted_def)
  have newsletter: "sendMail_calls (snd (post_newsletter now b w)) = sendMail_calls w"
  proof (cases "truthy (field b ''email'')")
    case False
    then show ?thesis by (simp add: post_newsletter_catch post_newsletter_rejected)
  next
    case True
    then show ?thesis
      by (cases "store_fault w")
        (simp_all add: post_newsletter_catch post_newsletter_stored
          post_newsletter_store_fault logged_def upsert_keeps_mail_log)
  qed
  from appointment survey newsletter show ?thesis by simp
qed

theorem no_mail_from_appointment_survey_newsletter_witness:
  "configured mail_env
   \<and> sendMail_calls (snd (post_appointment mail_env 7 ann_appointment initial_world)) = []
   \<and> sendMail_calls (snd (post_survey test_runtime 7 ann_appointment initial_world)) = []
   \<and> sendMail_calls (snd (post_newsletter 7 ann_appointment initial_world)) = []"
  using no_mail_from_appointment_survey_newsletter
          [of mail_env 7 ann_appointment initial_world test_runtime]
  by (simp add: fixture_simps more_fixture_simps)

section \<open>C7: a failing store\<close>

text \<open>
  C7. When \<^verbatim>\<open>pool.query\<close> rejects with an error \<open>d\<close>, the \<^verbatim>\<open>try\<close> block of each POST
  handler that reaches the statement ends in that error, and the handler answers with
  status 500 and a body holding only its own fixed message: the body does not depend
  on \<open>d\<close> nor on \<^verbatim>\<open>NODE_ENV\<close>. The error goes to the console, and the stored tables
  are unchanged. The error handling middleware, which gets what is raised outside the
  handlers, answers 500 with a fixed error and no message unless \<^verbatim>\<open>NODE_ENV\<close> is
  \<^verbatim>\<open>development\<close>.
\<close>

theorem store_failure_gives_generic_500:
  "store_fault w = Some d \<Longrightarrow>
     (contact_required b \<longrightarrow>
        fst (post_contact_try rt e now b w) = Inl (Error d)
        \<and> post_contact rt e now b w =
            (\<lparr>status = 500, json = [(''error'', Some (JStr ''Failed to submit contact form''))]\<rparr>,
             logged ''Contact form error:'' (Error d) w))
   \<and> (appointment_required b \<longrightarrow>
        fst (post_appointment_try e now b w) = Inl (Error d)
        \<and> post_appointment e now b w =
            (\<lparr>status = 500,
              json = [(''error'', Some (JStr ''Failed to submit appointment request''))]\<rparr>,
             logged ''Appointment request error:'' (Error d) w))
   \<and> (quote_required b \<longrightarrow>
        fst (post_quote_try rt e now b w) = Inl (Error d)
        \<and> post_quote rt e now b w =
            (\<lparr>status = 500, json = [(''error'', Some (JStr ''Failed to submit quote request''))]\<rparr>,
             logged ''Quote request error:'' (Error d) w))
   \<and> fst (post_survey_try rt now b w) = Inl (Error d)
   \<and> post_survey rt now b w =
       (\<lparr>status = 500, json = [(''error'', Some (JStr ''Failed to submit survey''))]\<rparr>,
        logged ''Survey submission error:'' (Error d) w)
   \<and> (truthy (field b ''email'') \<longrightarrow>
        fst (post_newsletter_try now b w) = Inl (Error d)
        \<and> post_newsletter now b w =
            (\<lparr>status = 500,
              json = [(''error'', Some (JStr ''Failed to subscribe to newsletter''))]\<rparr>,
             logged ''Newsletter subscription error:'' (Error d) w))
   \<and> (NODE_ENV e \<noteq> Some ''development'' \<longrightarrow>
        fst (error_middleware e (Error d) w) =
          \<lparr>status = 500,
           json = [(''error'', Some (JStr ''Something went wrong!'')), (''message'', None)]\<rparr>)"
proof -
  assume down: "store_fault w = Some d"
  have contact:
    "fst (post_contact_try rt e now b w) = Inl (Error d)
     \<and> post_contact rt e now b w =
         (\<lparr>status = 500, json = [(''error'', Some (JStr ''Failed to submit contact form''))]\<rparr>,
          logged ''Contact form error:'' (Error d) w)" if "contact_required b"
    using that down
    by (simp add: post_contact_catch post_contact_store_fault server_error_def)
  have appointment:
    "fst (post_appointment_try e now b w) = Inl (Error d)
     \<and> post_appointment e now b w =
         (\<lparr>status = 500,
           json = [(''error'', Some (JStr ''Failed to submit appointment request''))]\<rparr>,
          logged ''Appointment request error:'' (Error d) w)" if "appointment_required b"
    using that down
    by (simp add: post_appointment_catch post_appointment_store_fault server_error_def)
  have quote:
    "fst (post_quote_try rt e now b w) = Inl (Error d)
     \<and> post_quote rt e now b w =
         (\<lparr>status = 500, json = [(''error'', Some (JStr ''Failed to submit quote request''))]\<rparr>,
          logged ''Quote request error:'' (Error d) w)" if "quote_required b"
    using that down
    by (simp add: post_quote_catch post_quote_store_fault server_error_def)
  have survey:
    "fst (post_survey_try rt now b w) = Inl (Error d)
     \<and> post_survey rt now b w =
         (\<lparr>status = 500, json = [(''error'', Some (JStr ''Failed to submit survey''))]\<rparr>,
          logged ''Survey submission error:'' (Error d) w)"
    using down
    by (simp add: post_survey_catch post_survey_store_fault server_error_def)
  have newsletter:
    "fst (post_newsletter_try now b w) = Inl (Error d)
     \<and> post_newsletter now b w =
         (\<lparr>status = 500,
           json = [(''error'', Some (JStr ''Failed to subscribe to newsletter''))]\<rparr>,
          logged ''Newsletter subscription error:'' (Error d) w)"
    if "truthy (field b ''email'')"
    using that down
    by (simp add: post_newsletter_catch post_newsletter_store_fault server_error_def)
  have middleware:
    "fst (error_middleware e (Error d) w) =
       \<lparr>status = 500,
        json = [(''error'', Some (JStr ''Something went wrong!'')), (''message'', None)]\<rparr>"
    if "NODE_ENV e \<noteq> Some ''development''"
    using that by (simp add: error_middleware_def)
  from contact appointment quote survey newsletter middleware show ?thesis by blast
qed

theorem store_failure_gives_generic_500_witness:
  "store_fault store_down = Some ''connect ECONNREFUSED 10.0.0.5:5432''
   \<and> contact_required ann_contact
   \<and> appointment_required ann_contact
   \<and> truthy (field ann_contact ''email'')
   \<and> NODE_ENV mail_env \<noteq> Some ''development''
   \<and> fst (post_contact test_runtime mail_env 7 ann_contact store_down) =
       \<lparr>status = 500, json = [(''error'', Some (JStr ''Failed to submit contact form''))]\<rparr>
   \<and> fst (post_appointment mail_env 7 ann_contact store_down) =
       \<lparr>status = 500, json = [(''error'', Some (JStr ''Failed to submit appointment request''))]\<rparr>
   \<and> fst (post_survey test_runtime 7 ann_contact store_down) =
       \<lparr>status = 500, json = [(''error'', Some (JStr ''Failed to submit survey''))]\<rparr>
   \<and> fst (post_newsletter 7 ann_contact store_down) =
       \<lparr>status = 500, json = [(''error'', Some (JStr ''Failed to subscribe to newsletter''))]\<rparr>
   \<and> fst (error_middleware mail_env (Error ''connect ECONNREFUSED 10.0.0.5:5432'') store_down) =
       \<lparr>status = 500,
        json = [(''error'', Some (JStr ''Something went wrong!'')), (''message'', None)]\<rparr>"
  using store_failure_gives_generic_500
          [where w = store_down and d = "''connect ECONNREFUSED 10.0.0.5:5432''"
             and b = ann_contact and rt = test_runtime and e = mail_env and now = 7]
  by (simp add: fixture_simps more_fixture_simps ann_contact_simps)

section \<open>C9: a failing dispatch\<close>

text \<open>
  C9. With credentials configured, a contact or quote submission with its required
  fields whose insert is accepted builds its mail and, unless building it throws,
  calls \<^verbatim>\<open>sendMail\<close> exactly once; it never calls it twice. The response follows the
  outcome of that call: success when it resolves; when it rejects with \<open>d\<close>, the 500
  response with the handler's fixed message, while the row inserted before stays in
  the table and the error goes to the console. When building the mail throws, there
  is no call, and the response is the same 500 with the row in the table.
\<close>

theorem dispatch_failure_after_insert:
  "configured e \<Longrightarrow> store_fault w = None \<Longrightarrow>
     (contact_required b \<longrightarrow>
        post_contact rt e now b w =
          (case contact_mail_of rt e b now of
             Inl err \<Rightarrow>
               (\<lparr>status = 500,
                 json = [(''error'', Some (JStr ''Failed to submit contact form''))]\<rparr>,
                logged ''Contact form error:'' err (contact_inserted b now w))
           | Inr m \<Rightarrow>
               (case mail_fault w of
                  None \<Rightarrow>
                    (contact_ok (Suc (contact_seq w)), mailed m (contact_inserted b now w))
                | Some d \<Rightarrow>
                    (\<lparr>status = 500,
                      json = [(''error'', Some (JStr ''Failed to submit contact form''))]\<rparr>,
                     logged ''Contact form error:'' (Error d)
                       (mailed m (contact_inserted b now w)))))
        \<and> contact_submissions (snd (post_contact rt e now b w)) =
            contact_submissions w @ [contact_row_of b (Suc (contact_seq w)) now]
        \<and> sendMail_calls (snd (post_contact rt e now b w)) =
            sendMail_calls w @
              (case contact_mail_of rt e b now of Inl err \<Rightarrow> [] | Inr m \<Rightarrow> [m]))
   \<and> (quote_required q \<longrightarrow>
        post_quote rt e now q w =
          (case quote_mail_of rt e q now of
             Inl err \<Rightarrow>
               (\<lparr>status = 500,
                 json = [(''error'', Some (JStr ''Failed to submit quote request''))]\<rparr>,
                logged ''Quote request error:'' err (quote_inserted q now w))
           | Inr m \<Rightarrow>
               (case mail_fault w of
                  None \<Rightarrow> (quote_ok (Suc (quote_seq w)), mailed m (quote_inserted q now w))
                | Some d \<Rightarrow>
                    (\<lparr>status = 500,
                      json = [(''error'', Some (JStr ''Failed to submit quote request''))]\<rparr>,
                     logged ''Quote request error:'' (Error d)
                       (mailed m (quote_inserted q now w)))))
        \<and> quote_requests (snd (post_quote rt e now q w)) =
            quote_requests w @ [quote_row_of q (Suc (quote_seq w)) now]
        \<and> sendMail_calls (snd (post_quote rt e now q w)) =
            sendMail_calls w @
              (case quote_mail_of rt e q now of Inl err \<Rightarrow> [] | Inr m \<Rightarrow> [m]))"
proof -
  assume creds: "configured e" and up: "store_fault w = None"
  have contact:
    "post_contact rt e now b w =
       (case contact_mail_of rt e b now of
          Inl err \<Rightarrow>
            (\<lparr>status = 500,
              json = [(''error'', Some (JStr ''Failed to submit contact form''))]\<rparr>,
             logged ''Contact form error:'' err (contact_inserted b now w))
        | Inr m \<Rightarrow>
            (case mail_fault w of
               None \<Rightarrow>
                 (contact_ok (Suc (contact_seq w)), mailed m (contact_inserted b now w))
             | Some d \<Rightarrow>
                 (\<lparr>status = 500,
                   json = [(''error'', Some (JStr ''Failed to submit contact form''))]\<rparr>,
                  logged ''Contact form error:'' (Error d)
                    (mailed m (contact_inserted b now w)))))
     \<and> contact_submissions (snd (post_contact rt e now b w)) =
         contact_submissions w @ [contact_row_of b (Suc (contact_seq w)) now]
     \<and> sendMail_calls (snd (post_contact rt e now b w)) =
         sendMail_calls w @
           (case contact_mail_of rt e b now of Inl err \<Rightarrow> [] | Inr m \<Rightarrow> [m])"
    if required: "contact_required b"
  proof (cases "contact_mail_of rt e b now")
    case (Inl err)
    with required creds up show ?thesis
      by (simp add: post_contact_catch post_contact_not_built server_error_def logged_def
          contact_inserted_def)
  next
    case (Inr m)
    with required creds up show ?thesis
      by (cases "mail_fault w")
        (simp_all add: post_contact_catch post_contact_notified post_contact_mail_fault
          server_error_def logged_def mailed_def contact_inserted_def)
  qed
  have quote:
    "post_quote rt e now q w =
       (case quote_mail_of rt e q now of
          Inl err \<Rightarrow>
            (\<lparr>status = 500,
              json = [(''error'', Some (JStr ''Failed to submit quote request''))]\<rparr>,
             logged ''Quote request error:'' err (quote_inserted q now w))
        | Inr m \<Rightarrow>
            (case mail_fault w of
               None \<Rightarrow> (quote_ok (Suc (quote_seq w)), mailed m (quote_inserted q now w))
             | Some d \<Rightarrow>
                 (\<lparr>status = 500,
                   json = [(''error'', Some (JStr ''Failed to submit quote request''))]\<rparr>,
                  logged ''Quote request error:'' (Error d)
                    (mailed m (quote_inserted q now w)))))
     \<and> quote_requests (snd (post_quote rt e now q w)) =
         quote_requests w @ [quote_row_of q (Suc (quote_seq w)) now]
     \<and> sendMail_calls (snd (post_quote rt e now q w)) =
         sendMail_calls w @
           (case quote_mail_of rt e q now of Inl err \<Rightarrow> [] | Inr m \<Rightarrow> [m])"
    if required: "quote_required q"
  proof (cases "quote_mail_of rt e q now")
    case (Inl err)
    with required creds up show ?thesis
      by (simp add: post_quote_catch post_quote_not_built server_error_def logged_def
          quote_inserted_def)
  next
    case (Inr m)
    with required creds up show ?thesis
      by (cases "mail_fault w")
        (simp_all add: post_quote_catch post_quote_notified post_quote_mail_fault
          server_error_def logged_def mailed_def quote_inserted_def)
  qed
  from contact quote show ?thesis by blast
qed

theorem dispatch_failure_after_insert_witness:
  "configured mail_env \<and> store_fault mail_down = None
   \<and> contact_required ann_contact \<and> quote_required acme_quote
   \<and> fst (post_contact test_runtime mail_env 7 ann_contact mail_down) =
       \<lparr>status = 500, json = [(''error'', Some (JStr ''Failed to submit contact form''))]\<rparr>
   \<and> contact_submissions (snd (post_contact test_runtime mail_env 7 ann_contact mail_down)) =
       [contact_row_of ann_contact (Suc 0) 7]
   \<and> sendMail_calls (snd (post_contact test_runtime mail_env 7 ann_contact mail_down)) =
       [ann_mail]
   \<and> fst (post_quote test_runtime mail_env 7 acme_quote mail_down) =
       \<lparr>status = 500, json = [(''error'', Some (JStr ''Failed to submit quote request''))]\<rparr>
   \<and> quote_requests (snd (post_quote test_runtime mail_env 7 acme_quote mail_down)) =
       [quote_row_of acme_quote (Suc 0) 7]
   \<and> sendMail_calls (snd (post_quote test_runtime mail_env 7 acme_quote mail_down)) =
       [acme_mail]"
  using dispatch_failure_after_insert
          [where e = mail_env and w = mail_down and b = ann_contact and q = acme_quote
             and rt = test_runtime and now = 7]
  by (simp add: fixture_simps more_fixture_simps fixture_mails logged_def mailed_def
      contact_inserted_def quote_inserted_def)

section \<open>C3: subscribing twice\<close>

lemma filter_unique_key:
  "distinct (map g xs) \<Longrightarrow> x \<in> set xs \<Longrightarrow> filter (\<lambda>y. g y = g x) xs = [x]"
proof (induction xs)
  case Nil
  then show ?case by simp
next
  case (Cons a xs)
  show ?case
  proof (cases "a = x")
    case True
    with Cons.prems have "g x \<notin> g ` set xs" by simp
    then have "\<forall>y \<in> set xs. g y \<noteq> g x" by (metis imageI)
    then have "filter (\<lambda>y. g y = g x) xs = []" by (simp add: filter_empty_conv)
    with True show ?thesis by simp
  next
    case False
    with Cons.prems have "x \<in> set xs" and "g a \<noteq> g x" by auto
    with Cons show ?thesis by simp
  qed
qed

lemma upsert_row_email: "n_email (upsert_row email name now r) = n_email r"
  by (simp add: upsert_row_def)

lemma filter_upsert_rows:
  "filter (\<lambda>r. n_email r = email) (map (upsert_row email name now) rows) =
     map (\<lambda>r. r\<lparr>n_name := name, n_created_at := now\<rparr>) (filter (\<lambda>r. n_email r = email) rows)"
  by (induction rows) (simp_all add: upsert_row_def)

lemma upsert_store_up:
  "store_fault (snd (upsert_newsletter_subscription email name now w)) = store_fault w"
  by (simp add: upsert_newsletter_subscription_def split: option.splits)

lemma upsert_unique:
  assumes "unique_emails w"
  shows "unique_emails (snd (upsert_newsletter_subscription email name now w))"
proof (cases "store_fault w")
  case (Some d)
  with assms show ?thesis by (simp add: upsert_newsletter_subscription_def)
next
  case up: None
  show ?thesis
  proof (cases "find (\<lambda>r. n_email r = email) (newsletter_subscriptions w)")
    case None
    then have "email \<notin> n_email ` set (newsletter_subscriptions w)"
      by (auto simp: find_None_iff)
    with assms up None show ?thesis
      by (simp add: upsert_newsletter_subscription_def unique_emails_def)
  next
    case (Some r)
    have "map n_email (map (upsert_row email name now) (newsletter_subscriptions w)) =
            map n_email (newsletter_subscriptions w)"
      by (simp add: upsert_row_email comp_def)
    with assms up Some show ?thesis
      by (simp add: upsert_newsletter_subscription_def unique_emails_def del: map_map)
  qed
qed

lemma upsert_single_row:
  assumes "store_fault w = None" and "unique_emails w"
  shows "\<exists>r. rows_for email (snd (upsert_newsletter_subscription email name now w)) = [r]
           \<and> n_name r = name \<and> n_created_at r = now"
proof (cases "find (\<lambda>r. n_email r = email) (newsletter_subscriptions w)")
  case None
  then have "filter (\<lambda>r. n_email r = email) (newsletter_subscriptions w) = []"
    by (auto simp: find_None_iff filter_empty_conv)
  with assms None show ?thesis
    by (simp add: upsert_newsletter_subscription_def rows_for_def)
next
  case (Some r)
  then have r: "r \<in> set (newsletter_subscriptions w)" and e: "n_email r = email"
    by (auto simp: find_Some_iff)
  from assms(2) r have "filter (\<lambda>y. n_email y = n_email r) (newsletter_subscriptions w) = [r]"
    unfolding unique_emails_def by (rule filter_unique_key)
  with e have "filter (\<lambda>y. n_email y = email) (newsletter_subscriptions w) = [r]"
    by simp
  with assms Some show ?thesis
    by (simp add: upsert_newsletter_subscription_def rows_for_def filter_upsert_rows)
qed

lemma post_newsletter_accepted:
  "truthy (field b ''email'') \<Longrightarrow> store_fault w = None \<Longrightarrow>
     post_newsletter now b w =
       (newsletter_ok,
        snd (upsert_newsletter_subscription (field b ''email'') (field b ''name'') now w))"
  by (simp add: post_newsletter_catch post_newsletter_stored)

text \<open>
  C3. Starting from a store that accepts statements and whose newsletter emails are
  unique, two subscriptions with the same (non-empty) email, at times \<open>t1\<close> and \<open>t2\<close>,
  both get the success response, and afterwards the table holds exactly one row for
  that email, whose name is the name of the second request and whose creation time
  is \<open>t2\<close>.
\<close>

theorem newsletter_resubmission:
  assumes "store_fault w = None" and "unique_emails w"
    and "truthy (field b1 ''email'')" and "field b2 ''email'' = field b1 ''email''"
  shows "fst (post_newsletter t1 b1 w) = newsletter_ok
    \<and> fst (post_newsletter t2 b2 (snd (post_newsletter t1 b1 w))) = newsletter_ok
    \<and> (\<exists>r. rows_for (field b1 ''email'')
              (snd (post_newsletter t2 b2 (snd (post_newsletter t1 b1 w)))) = [r]
            \<and> n_name r = field b2 ''name'' \<and> n_created_at r = t2)"
proof -
  let ?w1 = "snd (upsert_newsletter_subscription (field b1 ''email'') (field b1 ''name'') t1 w)"
  have first: "post_newsletter t1 b1 w = (newsletter_ok, ?w1)"
    using assms(1,3) by (rule post_newsletter_accepted [rotated])
  have up1: "store_fault ?w1 = None"
    using assms(1) by (simp add: upsert_store_up)
  have unique1: "unique_emails ?w1"
    using assms(2) by (rule upsert_unique)
  have second:
    "post_newsletter t2 b2 ?w1 =
       (newsletter_ok,
        snd (upsert_newsletter_subscription (field b1 ''email'') (field b2 ''name'') t2 ?w1))"
    using assms(3,4) up1 by (simp add: post_newsletter_accepted)
  from upsert_single_row [OF up1 unique1]
  have "\<exists>r. rows_for (field b1 ''email'')
               (snd (upsert_newsletter_subscription (field b1 ''email'') (field b2 ''name'') t2
                  ?w1)) = [r]
             \<and> n_name r = field b2 ''name'' \<and> n_created_at r = t2" .
  with first second show ?thesis by simp
qed

theorem newsletter_resubmission_witness:
  "store_fault initial_world = None \<and> unique_emails initial_world
   \<and> truthy (field ann_newsletter ''email'')
   \<and> field annie_newsletter ''email'' = field ann_newsletter ''email''
   \<and> fst (post_newsletter 7 ann_newsletter initial_world) = newsletter_ok
   \<and> fst (post_newsletter 9 annie_newsletter (snd (post_newsletter 7 ann_newsletter initial_world)))
       = newsletter_ok
   \<and> newsletter_subscriptions
       (snd (post_newsletter 9 annie_newsletter
          (snd (post_newsletter 7 ann_newsletter initial_world)))) =
       [\<lparr>n_id = 1, n_email = Some (JStr ''a@b.com''), n_name = Some (JStr ''Annie''),
         n_created_at = 9\<rparr>]"
  using newsletter_resubmission
          [where w = initial_world and ?b1.0 = ann_newsletter and ?b2.0 = annie_newsletter
             and ?t1.0 = 7 and ?t2.0 = 9]
  by (simp add: initial_world_def unique_emails_def ann_newsletter_def annie_newsletter_def
      field_def post_newsletter_def post_newsletter_try_def
      upsert_newsletter_subscription_def upsert_row_def newsletter_ok_def Let_def)

section \<open>C4: the mail templates\<close>











section \<open>The uniqueness of newsletter emails is an invariant\<close>

lemma initial_world_unique: "unique_emails initial_world"
  by (simp add: unique_emails_def initial_world_def)

lemma post_newsletter_keeps_unique:
  assumes "unique_emails w"
  shows "unique_emails (snd (post_newsletter now b w))"
proof (cases "truthy (field b ''email'')")
  case False
  with assms show ?thesis
    by (simp add: post_newsletter_catch post_newsletter_rejected)
next
  case True
  show ?thesis
  proof (cases "store_fault w")
    case None
    with True assms show ?thesis
      by (simp add: post_newsletter_accepted upsert_unique)
  next
    case (Some d)
    with True assms show ?thesis
      by (simp add: post_newsletter_catch post_newsletter_store_fault logged_def
          unique_emails_def)
  qed
qed

lemma other_handlers_keep_newsletter:
  "newsletter_subscriptions (snd (post_contact rt e now b w)) = newsletter_subscriptions w"
  "newsletter_subscriptions (snd (post_appointment e now b w)) = newsletter_subscriptions w"
  "newsletter_subscriptions (snd (post_quote rt e now b w)) = newsletter_subscriptions w"
  "newsletter_subscriptions (snd (post_survey rt now b w)) = newsletter_subscriptions w"
  "newsletter_subscriptions (snd (get_health rt e now w)) = newsletter_subscriptions w"
  by (auto simp: post_contact_def post_contact_try_def insert_contact_submission_def
      post_appointment_def post_appointment_try_def insert_appointment_request_def
      post_quote_def post_quote_try_def insert_quote_request_def
      post_survey_def post_survey_try_def insert_survey_submission_def
      get_health_def sendMail_def Let_def split: option.splits sum.splits)

end
